theory Spec2Isabelle
  imports Complex_Main "HOL-Library.FSet" "HOL-Library.AList"
    "HOL-Library.Char_ord" "HOL-Library.List_Lexorder"
begin

section \<open>Python values and exceptions\<close>

text \<open>
  The development embeds \<^verbatim>\<open>extract_places.py\<close>. Python's \<^verbatim>\<open>int\<close> is \<^typ>\<open>int\<close>,
  \<^verbatim>\<open>str\<close> is \<^typ>\<open>string\<close>, and a \<^verbatim>\<open>float\<close> is modelled by \<^typ>\<open>real\<close>: the arithmetic
  is the exact one, rounding is not modelled. Values are typed as the annotations of the
  source declare them.

  An exception is a value. \<^verbatim>\<open>except Exception\<close> catches every exception below but
  \<^verbatim>\<open>KeyboardInterrupt\<close>, which derives from \<^verbatim>\<open>BaseException\<close> only.
\<close>

datatype exn =
    ZeroDivisionError
  | KeyError string
  | TypeError
  | ValueError
  | IndexError
  | ApiError string
  | TransportError
  | Timeout
  | KeyboardInterrupt

definition is_Exception :: "exn \<Rightarrow> bool" where
  "is_Exception e = (e \<noteq> KeyboardInterrupt)"

text \<open>
  \<^verbatim>\<open>a / b\<close> on a float and an int: the int is converted to a float, then a zero
  divisor raises. An int that has no float, of magnitude \<open>float_int_limit\<close> or more,
  raises \<^verbatim>\<open>OverflowError\<close> at the conversion; \<open>py_truediv\<close> takes the divisor already
  converted and does not have that case, so the statements on degenerate division counts
  keep the counts below the limit.
\<close>

definition float_int_limit :: int where
  "float_int_limit = 2 ^ 1024 - 2 ^ 970"

definition py_truediv :: "real \<Rightarrow> real \<Rightarrow> exn + real" where
  "py_truediv a b = (if b = 0 then Inl ZeroDivisionError else Inr (a / b))"

text \<open>\<^verbatim>\<open>a % b\<close> on ints: floored, as \<open>mod\<close> on \<^typ>\<open>int\<close> is, and raising on zero.\<close>

definition py_mod :: "int \<Rightarrow> int \<Rightarrow> exn + int" where
  "py_mod a b = (if b = 0 then Inl ZeroDivisionError else Inr (a mod b))"

text \<open>\<^verbatim>\<open>range(start, stop)\<close>: empty when \<open>stop \<le> start\<close>.\<close>

definition py_range :: "int \<Rightarrow> int \<Rightarrow> int list" where
  "py_range start stop = map (\<lambda>k. start + int k) [0..<nat (stop - start)]"

text \<open>\<^verbatim>\<open>xs[i]\<close>: a negative index counts from the end, out of range raises.\<close>

definition py_index :: "'a list \<Rightarrow> int \<Rightarrow> exn + 'a" where
  "py_index xs i =
     (if 0 \<le> i \<and> i < int (length xs) then Inr (xs ! nat i)
      else if i < 0 \<and> - int (length xs) \<le> i then Inr (xs ! nat (int (length xs) + i))
      else Inl IndexError)"

text \<open>Truth value of an optional string: \<^verbatim>\<open>None\<close> and \<^verbatim>\<open>''\<close> are falsy.\<close>

fun truthy :: "string option \<Rightarrow> bool" where
  "truthy None = False"
| "truthy (Some s) = (s \<noteq> [])"

section \<open>Configuration\<close>

record config =
  BBOX_NORTH :: real
  BBOX_SOUTH :: real
  BBOX_EAST :: real
  BBOX_WEST :: real
  GRID_LAT_DIVISIONS :: int
  GRID_LNG_DIVISIONS :: int
  SEARCH_RADIUS_METERS :: int
  PLACE_TYPES :: "string list"
  INCLUDE_GENERIC_SEARCH :: bool
  DELAY_BETWEEN_REQUESTS_SECONDS :: real
  PAGINATION_DELAY_SECONDS :: real
  MAX_RETRIES :: int
  INITIAL_RETRY_DELAY_SECONDS :: real
  ENABLE_CHECKPOINTING :: bool
  CHECKPOINT_INTERVAL :: int

text \<open>The defaults of the \<^verbatim>\<open>Config\<close> dataclass.\<close>

definition default_config :: config where
  "default_config = \<lparr>
     BBOX_NORTH = 18.15, BBOX_SOUTH = 17.95, BBOX_EAST = -15.85, BBOX_WEST = -16.10,
     GRID_LAT_DIVISIONS = 10, GRID_LNG_DIVISIONS = 10,
     SEARCH_RADIUS_METERS = 1000,
     PLACE_TYPES = [
       ''restaurant'', ''cafe'', ''bar'', ''food'',
       ''lodging'', ''hotel'', ''mosque'',
       ''school'', ''university'', ''library'',
       ''hospital'', ''pharmacy'', ''doctor'', ''dentist'',
       ''bank'', ''atm'',
       ''store'', ''supermarket'', ''shopping_mall'',
       ''gas_station'', ''car_repair'',
       ''bus_station'', ''taxi_stand'', ''airport'',
       ''laundry'', ''beauty_salon'', ''hair_care'', ''spa'',
       ''gym'', ''stadium'', ''park'',
       ''movie_theater'', ''night_club'', ''casino'',
       ''travel_agency'', ''real_estate_agency'',
       ''lawyer'', ''accountant'', ''insurance_agency'',
       ''post_office'', ''courthouse'', ''embassy'',
       ''police'', ''fire_station'', ''local_government_office'',
       ''bakery'', ''electronics_store'', ''furniture_store'',
       ''hardware_store'', ''home_goods_store'',
       ''clothing_store'', ''shoe_store'', ''jewelry_store'',
       ''book_store'', ''florist'', ''pet_store'',
       ''car_dealer'', ''car_rental'', ''car_wash'', ''parking'',
       ''church'', ''hindu_temple'', ''synagogue'',
       ''museum'', ''art_gallery'', ''aquarium'', ''zoo'',
       ''veterinary_care'', ''plumber'', ''electrician'',
       ''locksmith'', ''roofing_contractor'', ''painter'',
       ''moving_company'', ''storage'',
       ''finance'', ''accounting'',
       ''point_of_interest'', ''establishment'',
       ''cemetery'', ''funeral_home'',
       ''campground'', ''rv_park'',
       ''tourist_attraction'', ''amusement_park''],
     INCLUDE_GENERIC_SEARCH = True,
     DELAY_BETWEEN_REQUESTS_SECONDS = 0.5,
     PAGINATION_DELAY_SECONDS = 2.5,
     MAX_RETRIES = 5,
     INITIAL_RETRY_DELAY_SECONDS = 1.0,
     ENABLE_CHECKPOINTING = True,
     CHECKPOINT_INTERVAL = 10 \<rparr>"

section \<open>Grid generation\<close>

record GridCell =
  row :: int
  col :: int
  center_lat :: real
  center_lng :: real

text \<open>
  \<^verbatim>\<open>generate_grid\<close>: the two steps are computed first (each division may raise), then
  the nested \<^verbatim>\<open>for\<close> loops append one cell per (row, col).
\<close>

definition grid_cell :: "config \<Rightarrow> real \<Rightarrow> real \<Rightarrow> int \<Rightarrow> int \<Rightarrow> GridCell" where
  "grid_cell config lat_step lng_step r c =
     \<lparr> row = r, col = c,
       center_lat = BBOX_SOUTH config + (of_int r + 0.5) * lat_step,
       center_lng = BBOX_WEST config + (of_int c + 0.5) * lng_step \<rparr>"

definition generate_grid :: "config \<Rightarrow> exn + GridCell list" where
  "generate_grid config =
     (case py_truediv (BBOX_NORTH config - BBOX_SOUTH config)
             (of_int (GRID_LAT_DIVISIONS config)) of
        Inl e \<Rightarrow> Inl e
      | Inr lat_step \<Rightarrow>
          (case py_truediv (BBOX_EAST config - BBOX_WEST config)
                  (of_int (GRID_LNG_DIVISIONS config)) of
             Inl e \<Rightarrow> Inl e
           | Inr lng_step \<Rightarrow>
               Inr (foldl
                 (\<lambda>cells r.
                    foldl (\<lambda>cells c. cells @ [grid_cell config lat_step lng_step r c])
                      cells (py_range 0 (GRID_LNG_DIVISIONS config)))
                 [] (py_range 0 (GRID_LAT_DIVISIONS config)))))"

section \<open>Places, raw results and the extractor\<close>

record Place =
  place_id :: string
  name :: string
  types :: "string list"
  latitude :: real
  longitude :: real

text \<open>
  A raw result of the API is a dictionary; each key the code reads may be absent.
  \<^verbatim>\<open>d.get(k, default)\<close> is \<open>get_or default\<close> on the optional entry.
\<close>

record location_dict =
  lat :: "real option"
  lng :: "real option"

record geometry_dict =
  geometry_location :: "location_dict option"

record result_dict =
  result_place_id :: "string option"
  result_name :: "string option"
  result_types :: "string list option"
  result_geometry :: "geometry_dict option"

definition get_or :: "'a \<Rightarrow> 'a option \<Rightarrow> 'a" where
  "get_or d x = (case x of None \<Rightarrow> d | Some v \<Rightarrow> v)"

text \<open>One request to \<^verbatim>\<open>gmaps.places_nearby\<close> (its keyword arguments) and what comes back.\<close>

record request =
  req_location :: "real \<times> real"
  req_radius :: int
  req_type :: "string option"
  req_page_token :: "string option"

record response =
  status :: "string option"
  results :: "result_dict list option"
  resp_next_page_token :: "string option"

datatype outcome = Returns response | Raises exn

text \<open>
  The remote API is a parameter: what it answers to a request may depend on how many
  requests were issued before.
\<close>

type_synonym api = "nat \<Rightarrow> request \<Rightarrow> outcome"

text \<open>
  Modelled from the spec: the googlemaps client behind \<^verbatim>\<open>self.gmaps.places_nearby\<close> is
  not among the sources. The remote service answers a call with a body that carries a
  status, or not at all (a transport failure). The statuses \<^verbatim>\<open>OK\<close> and \<^verbatim>\<open>ZERO_RESULTS\<close>
  are the successes: the client hands such a body over. Every other answer reaches the
  caller as an error, an exception below \<^verbatim>\<open>Exception\<close>: \<^verbatim>\<open>ApiError\<close> for a denial or
  error status, \<^verbatim>\<open>Timeout\<close> when the client gives up re-sending on
  \<^verbatim>\<open>OVER_QUERY_LIMIT\<close>, \<^verbatim>\<open>KeyError\<close> for a body without status, \<^verbatim>\<open>TransportError\<close>
  for no answer. The service is asked with the number of calls made before and gives
  the answer the client ends with.
\<close>

datatype service_answer = Body response | No_answer

definition places_nearby :: "(nat \<Rightarrow> request \<Rightarrow> service_answer) \<Rightarrow> api" where
  "places_nearby service n r =
     (case service n r of
        No_answer \<Rightarrow> Raises TransportError
      | Body body \<Rightarrow>
          (case status body of
             None \<Rightarrow> Raises (KeyError ''status'')
           | Some s \<Rightarrow>
               if s = ''OK'' \<or> s = ''ZERO_RESULTS'' then Returns body
               else if s = ''OVER_QUERY_LIMIT'' then Raises Timeout
               else Raises (ApiError s)))"

text \<open>An answer that is no success: a transport failure, or a status that is neither
  \<^verbatim>\<open>OK\<close> nor \<^verbatim>\<open>ZERO_RESULTS\<close>.\<close>

fun failed :: "service_answer \<Rightarrow> bool" where
  "failed No_answer = True"
| "failed (Body body) = (status body \<noteq> Some ''OK'' \<and> status body \<noteq> Some ''ZERO_RESULTS'')"

text \<open>The warnings and errors that reach the logger (info and debug lines are left out).\<close>

datatype log_record =
    Warning_api_status "string option" "real \<times> real" "string option"
  | Warning_no_place_id string
  | Warning_api_error int int exn
  | Error_max_retries "real \<times> real" "string option"
  | Error_load_checkpoint exn
  | Warning_interrupted
  | Error_fatal exn

text \<open>What the run does to its environment, in order: a request issued, a delay slept.\<close>

datatype event = Requested request | Slept real

text \<open>The checkpoint file as \<^verbatim>\<open>json.load\<close> sees it: every key may be absent.\<close>

record checkpoint_dict =
  d_last_completed_cell_index :: "int option"
  d_total_unique_places :: "int option"
  d_total_api_calls :: "int option"
  d_total_duplicates_skipped :: "int option"
  d_timestamp :: "string option"

record place_dict =
  d_place_id :: "string option"
  d_name :: "string option"
  d_types :: "string list option"
  d_latitude :: "real option"
  d_longitude :: "real option"
  d_other_keys :: "string list"

record checkpoint_data =
  d_checkpoint :: "checkpoint_dict option"
  d_seen_place_ids :: "string list option"
  d_places :: "place_dict list option"

datatype file_contents = Unparseable | Json checkpoint_data

text \<open>
  The state: the fields of \<^verbatim>\<open>PlacesExtractor\<close>, then what the run leaves in its
  environment: the log, the trace of requests and delays, the checkpoint file
  (\<open>None\<close> when it does not exist) and the clock's reading (as an ISO string).
  \<^verbatim>\<open>places\<close> is a Python dict: an association list in insertion order.
\<close>

record state =
  seen_place_ids :: "string fset"
  places :: "(string \<times> Place) list"
  total_api_calls :: int
  total_duplicates_skipped :: int
  current_cell_index :: int
  logged :: "log_record list"
  trace :: "event list"
  checkpoint_file :: "file_contents option"
  now :: string

definition logger :: "log_record \<Rightarrow> state \<Rightarrow> state" where
  "logger r self = self \<lparr> logged := logged self @ [r] \<rparr>"

text \<open>\<^verbatim>\<open>PlacesExtractor.__init__\<close>: the fields are reset, the environment stays.\<close>

definition init :: "state \<Rightarrow> state" where
  "init world = world \<lparr> seen_place_ids := {||}, places := [], total_api_calls := 0,
     total_duplicates_skipped := 0, current_cell_index := 0 \<rparr>"

text \<open>\<^verbatim>\<open>time.sleep\<close> raises \<^verbatim>\<open>ValueError\<close> on a negative delay.\<close>

definition sleep :: "real \<Rightarrow> state \<Rightarrow> exn + state" where
  "sleep secs self =
     (if secs < 0 then Inl ValueError else Inr (self \<lparr> trace := trace self @ [Slept secs] \<rparr>))"

text \<open>The number of requests issued so far.\<close>

fun is_Requested :: "event \<Rightarrow> bool" where
  "is_Requested (Requested r) = True"
| "is_Requested (Slept d) = False"

definition requests_issued :: "state \<Rightarrow> nat" where
  "requests_issued self = length (filter is_Requested (trace self))"

section \<open>Deduplicating collector\<close>

definition process_result :: "state \<Rightarrow> result_dict \<Rightarrow> state" where
  "process_result self result =
     (if \<not> truthy (result_place_id result) then
        logger (Warning_no_place_id (get_or ''unknown'' (result_name result))) self
      else
        (case result_place_id result of
           None \<Rightarrow> self
         | Some pid \<Rightarrow>
             if pid |\<in>| seen_place_ids self then
               self \<lparr> total_duplicates_skipped := total_duplicates_skipped self + 1 \<rparr>
             else
               (let geometry = get_or \<lparr> geometry_location = None \<rparr> (result_geometry result);
                    location = get_or \<lparr> lat = None, lng = None \<rparr> (geometry_location geometry);
                    place = \<lparr> place_id = pid,
                              name = get_or [] (result_name result),
                              types = get_or [] (result_types result),
                              latitude = get_or 0.0 (lat location),
                              longitude = get_or 0.0 (lng location) \<rparr>
                in self \<lparr> seen_place_ids := finsert pid (seen_place_ids self),
                          places := AList.update pid place (places self) \<rparr>)))"

section \<open>Checkpoint store\<close>

definition to_dict :: "Place \<Rightarrow> place_dict" where
  "to_dict p = \<lparr> d_place_id = Some (place_id p), d_name = Some (name p),
     d_types = Some (types p), d_latitude = Some (latitude p),
     d_longitude = Some (longitude p), d_other_keys = [] \<rparr>"

text \<open>
  \<^verbatim>\<open>save_checkpoint\<close>. \<^verbatim>\<open>list(self.seen_place_ids)\<close> enumerates the set in an order
  Python does not specify; the model takes the sorted one. The file is modelled by the
  value \<^verbatim>\<open>json.load\<close> reads back from what \<^verbatim>\<open>json.dump\<close> wrote.
\<close>

definition save_checkpoint :: "state \<Rightarrow> state" where
  "save_checkpoint self =
     (let checkpoint = \<lparr>
            d_last_completed_cell_index = Some (current_cell_index self),
            d_total_unique_places = Some (int (length (places self))),
            d_total_api_calls = Some (total_api_calls self),
            d_total_duplicates_skipped = Some (total_duplicates_skipped self),
            d_timestamp = Some (now self) \<rparr>;
          checkpoint_data = \<lparr>
            d_checkpoint = Some checkpoint,
            d_seen_place_ids = Some (sorted_list_of_fset (seen_place_ids self)),
            d_places = Some (map (\<lambda>(k, place). to_dict place) (places self)) \<rparr>
      in self \<lparr> checkpoint_file := Some (Json checkpoint_data) \<rparr>)"

text \<open>
  \<^verbatim>\<open>Place(**place_dict)\<close>: a \<^verbatim>\<open>TypeError\<close> unless the keys are exactly the five fields.
\<close>

definition Place_of_dict :: "place_dict \<Rightarrow> exn + Place" where
  "Place_of_dict d =
     (case (d_place_id d, d_name d, d_types d, d_latitude d, d_longitude d, d_other_keys d) of
        (Some i, Some n, Some t, Some la, Some lo, []) \<Rightarrow>
          Inr \<lparr> place_id = i, name = n, types = t, latitude = la, longitude = lo \<rparr>
      | _ \<Rightarrow> Inl TypeError)"

text \<open>The loop over \<^verbatim>\<open>checkpoint_data['places']\<close>; what it stored before a raise stays.\<close>

fun restore_places :: "place_dict list \<Rightarrow> state \<Rightarrow> exn option \<times> state" where
  "restore_places [] self = (None, self)"
| "restore_places (d # ds) self =
     (case Place_of_dict d of
        Inl e \<Rightarrow> (Some e, self)
      | Inr place \<Rightarrow>
          restore_places ds (self \<lparr> places := AList.update (place_id place) place (places self) \<rparr>))"

text \<open>
  The body of the \<^verbatim>\<open>try\<close> of \<^verbatim>\<open>load_checkpoint\<close>, statement by statement: the result is
  the exception raised or the index to resume from, with the state as the statements
  executed so far left it.
\<close>

definition load_checkpoint_try :: "file_contents \<Rightarrow> state \<Rightarrow> (exn + int) \<times> state" where
  "load_checkpoint_try f self =
     (case f of
        Unparseable \<Rightarrow> (Inl ValueError, self)
      | Json checkpoint_data \<Rightarrow>
     (case d_checkpoint checkpoint_data of
        None \<Rightarrow> (Inl (KeyError ''checkpoint''), self)
      | Some checkpoint \<Rightarrow>
     (case d_seen_place_ids checkpoint_data of
        None \<Rightarrow> (Inl (KeyError ''seen_place_ids''), self)
      | Some ids \<Rightarrow>
     (let self1 = self \<lparr> seen_place_ids := fset_of_list ids \<rparr> in
      case d_places checkpoint_data of
        None \<Rightarrow> (Inl (KeyError ''places''), self1)
      | Some ds \<Rightarrow>
     (case restore_places ds self1 of
        (Some e, self2) \<Rightarrow> (Inl e, self2)
      | (None, self2) \<Rightarrow>
     (case d_total_api_calls checkpoint of
        None \<Rightarrow> (Inl (KeyError ''total_api_calls''), self2)
      | Some calls \<Rightarrow>
     (let self3 = self2 \<lparr> total_api_calls := calls \<rparr> in
      case d_total_duplicates_skipped checkpoint of
        None \<Rightarrow> (Inl (KeyError ''total_duplicates_skipped''), self3)
      | Some dups \<Rightarrow>
     (let self4 = self3 \<lparr> total_duplicates_skipped := dups \<rparr> in
      case d_last_completed_cell_index checkpoint of
        None \<Rightarrow> (Inl (KeyError ''last_completed_cell_index''), self4)
      | Some last_completed \<Rightarrow>
     (let resume_from = last_completed + 1 in
      case d_timestamp checkpoint of
        None \<Rightarrow> (Inl (KeyError ''timestamp''), self4)
      | Some ts \<Rightarrow> (Inr resume_from, self4))))))))))"

text \<open>
  \<^verbatim>\<open>load_checkpoint\<close>: \<open>None\<close> when the file does not exist, and when the \<^verbatim>\<open>try\<close> raised
  (every exception of the body is an \<^verbatim>\<open>Exception\<close>), after logging the error.
\<close>

definition load_checkpoint :: "state \<Rightarrow> int option \<times> state" where
  "load_checkpoint self =
     (case checkpoint_file self of
        None \<Rightarrow> (None, self)
      | Some f \<Rightarrow>
          (case load_checkpoint_try f self of
             (Inr resume_from, self') \<Rightarrow> (Some resume_from, self')
           | (Inl e, self') \<Rightarrow> (None, logger (Error_load_checkpoint e) self')))"

section \<open>Search executor\<close>

text \<open>The local variables of \<^verbatim>\<open>search_with_retry\<close> that live across its loops.\<close>

record locals =
  all_results :: "result_dict list"
  next_page_token :: "string option"
  page_num :: int

text \<open>
  The keyword arguments of a request: \<^verbatim>\<open>type\<close> and \<^verbatim>\<open>page_token\<close> are set only when
  truthy.
\<close>

definition build_kwargs ::
  "real \<times> real \<Rightarrow> int \<Rightarrow> string option \<Rightarrow> string option \<Rightarrow> request" where
  "build_kwargs location radius place_type token =
     \<lparr> req_location = location, req_radius = radius,
       req_type = (if truthy place_type then place_type else None),
       req_page_token = (if truthy token then token else None) \<rparr>"

text \<open>
  One pass through the body of the \<^verbatim>\<open>try\<close>: the exception raised inside it, if any,
  with the locals and the state as the statements executed so far left them. The API
  is asked with the number of requests issued before. Both ways out of the body
  without an exception are a \<^verbatim>\<open>break\<close> of the retry loop.
\<close>

definition attempt ::
  "api \<Rightarrow> config \<Rightarrow> real \<times> real \<Rightarrow> int \<Rightarrow> string option \<Rightarrow> locals \<times> state
     \<Rightarrow> exn option \<times> locals \<times> state" where
  "attempt gmaps config location radius place_type vs =
     (case vs of (v, self) \<Rightarrow>
      let self1 = self \<lparr> total_api_calls := total_api_calls self + 1 \<rparr>;
          kwargs = build_kwargs location radius place_type (next_page_token v);
          self2 = self1 \<lparr> trace := trace self1 @ [Requested kwargs] \<rparr>
      in case gmaps (requests_issued self1) kwargs of
           Raises e \<Rightarrow> (Some e, v, self2)
         | Returns response \<Rightarrow>
             (let self3 =
                    (if status response \<noteq> Some ''OK'' \<and> status response \<noteq> Some ''ZERO_RESULTS''
                     then logger (Warning_api_status (status response) location place_type) self2
                     else self2);
                  v1 = v \<lparr> all_results := all_results v @ get_or [] (results response),
                           page_num := page_num v + 1,
                           next_page_token := resp_next_page_token response \<rparr>
              in if truthy (next_page_token v1) then
                   (case sleep (PAGINATION_DELAY_SECONDS config) self3 of
                      Inl e \<Rightarrow> (Some e, v1, self3)
                    | Inr self4 \<Rightarrow>
                        (case sleep (DELAY_BETWEEN_REQUESTS_SECONDS config) self4 of
                           Inl e \<Rightarrow> (Some e, v1, self4)
                         | Inr self5 \<Rightarrow> (None, v1, self5)))
                 else (None, v1, self3)))"

text \<open>
  How the retry loop ends: it is left by its condition or a \<^verbatim>\<open>break\<close>, the function
  returns from inside it, or an exception leaves the function.
\<close>

datatype loop_exit =
    Fallthrough locals state
  | Returned "result_dict list" state
  | Propagated exn state

function retry_loop ::
  "api \<Rightarrow> config \<Rightarrow> real \<times> real \<Rightarrow> int \<Rightarrow> string option \<Rightarrow> int \<Rightarrow> real \<Rightarrow> locals \<times> state
     \<Rightarrow> loop_exit" where
  "retry_loop gmaps config location radius place_type retry_count delay vs =
     (if retry_count < MAX_RETRIES config then
        (case attempt gmaps config location radius place_type vs of
           (None, v', self') \<Rightarrow> Fallthrough v' self'
         | (Some e, v', self') \<Rightarrow>
             if is_Exception e then
               (if retry_count + 1 \<ge> MAX_RETRIES config then
                  Returned (all_results v')
                    (logger (Error_max_retries location place_type)
                       (logger (Warning_api_error (retry_count + 1) (MAX_RETRIES config) e) self'))
                else
                  (case sleep delay
                          (logger (Warning_api_error (retry_count + 1) (MAX_RETRIES config) e) self') of
                     Inl e' \<Rightarrow>
                       Propagated e'
                         (logger (Warning_api_error (retry_count + 1) (MAX_RETRIES config) e) self')
                   | Inr self2 \<Rightarrow>
                       retry_loop gmaps config location radius place_type
                         (retry_count + 1) (delay * 2) (v', self2)))
             else Propagated e self')
      else Fallthrough (fst vs) (snd vs))"
  by pat_completeness auto
termination
  by (relation "measure (\<lambda>(gmaps, config, location, radius, place_type, retry_count, delay, vs).
        nat (MAX_RETRIES config - retry_count))") auto

text \<open>
  The outer \<^verbatim>\<open>while True\<close> may run forever (an API that always hands out a cursor):
  it takes fuel, one unit per page, and \<open>None\<close> is "has not returned".
\<close>

fun search_pages ::
  "nat \<Rightarrow> api \<Rightarrow> config \<Rightarrow> real \<times> real \<Rightarrow> int \<Rightarrow> string option \<Rightarrow> locals \<times> state
     \<Rightarrow> ((exn + result_dict list) \<times> state) option" where
  "search_pages 0 gmaps config location radius place_type vs = None"
| "search_pages (Suc fuel) gmaps config location radius place_type vs =
     (case retry_loop gmaps config location radius place_type 0
             (INITIAL_RETRY_DELAY_SECONDS config) vs of
        Fallthrough v' self' \<Rightarrow>
          if \<not> truthy (next_page_token v') then Some (Inr (all_results v'), self')
          else search_pages fuel gmaps config location radius place_type (v', self')
      | Returned rs self' \<Rightarrow> Some (Inr rs, self')
      | Propagated e self' \<Rightarrow> Some (Inl e, self'))"

definition search_with_retry ::
  "nat \<Rightarrow> api \<Rightarrow> config \<Rightarrow> state \<Rightarrow> real \<times> real \<Rightarrow> int \<Rightarrow> string option
     \<Rightarrow> ((exn + result_dict list) \<times> state) option" where
  "search_with_retry fuel gmaps config self location radius place_type =
     search_pages fuel gmaps config location radius place_type
       (\<lparr> all_results = [], next_page_token = None, page_num = 0 \<rparr>, self)"

section \<open>Extraction orchestrator\<close>

text \<open>
  The loop of \<^verbatim>\<open>search_grid_cell\<close> over the search types (\<open>None\<close> is the generic
  search). The result is \<open>None\<close> when a search has not returned, else the exception
  that left the loop, if any, with the state.
\<close>

fun search_types_loop ::
  "nat \<Rightarrow> api \<Rightarrow> config \<Rightarrow> real \<times> real \<Rightarrow> int \<Rightarrow> string option list \<Rightarrow> state
     \<Rightarrow> (exn option \<times> state) option" where
  "search_types_loop fuel gmaps config location radius [] self = Some (None, self)"
| "search_types_loop fuel gmaps config location radius (place_type # rest) self =
     (case search_with_retry fuel gmaps config self location radius place_type of
        None \<Rightarrow> None
      | Some (Inl e, self1) \<Rightarrow> Some (Some e, self1)
      | Some (Inr rs, self1) \<Rightarrow>
          (case sleep (DELAY_BETWEEN_REQUESTS_SECONDS config) (foldl process_result self1 rs) of
             Inl e \<Rightarrow> Some (Some e, foldl process_result self1 rs)
           | Inr self2 \<Rightarrow> search_types_loop fuel gmaps config location radius rest self2))"

definition search_grid_cell ::
  "nat \<Rightarrow> api \<Rightarrow> config \<Rightarrow> state \<Rightarrow> GridCell \<Rightarrow> (exn option \<times> state) option" where
  "search_grid_cell fuel gmaps config self cell =
     (let location = (center_lat cell, center_lng cell);
          radius = SEARCH_RADIUS_METERS config;
          search_types = map Some (PLACE_TYPES config)
             @ (if INCLUDE_GENERIC_SEARCH config then [None] else [])
      in search_types_loop fuel gmaps config location radius search_types self)"

text \<open>
  The loop of \<^verbatim>\<open>extract_all_places\<close> over \<^verbatim>\<open>range(start_from, total_cells)\<close>. The
  interval test is evaluated only when checkpointing is enabled (\<^verbatim>\<open>and\<close> is lazy).
\<close>

fun cells_loop ::
  "nat \<Rightarrow> api \<Rightarrow> config \<Rightarrow> GridCell list \<Rightarrow> int list \<Rightarrow> state \<Rightarrow> (exn option \<times> state) option" where
  "cells_loop fuel gmaps config grid [] self = Some (None, self)"
| "cells_loop fuel gmaps config grid (idx # rest) self =
     (case py_index grid idx of
        Inl e \<Rightarrow> Some (Some e, self)
      | Inr cell \<Rightarrow>
          (case search_grid_cell fuel gmaps config (self \<lparr> current_cell_index := idx \<rparr>) cell of
             None \<Rightarrow> None
           | Some (Some e, self1) \<Rightarrow> Some (Some e, self1)
           | Some (None, self1) \<Rightarrow>
               if ENABLE_CHECKPOINTING config then
                 (case py_mod (idx + 1) (CHECKPOINT_INTERVAL config) of
                    Inl e \<Rightarrow> Some (Some e, self1)
                  | Inr m \<Rightarrow>
                      cells_loop fuel gmaps config grid rest
                        (if m = 0 then save_checkpoint self1 else self1))
               else cells_loop fuel gmaps config grid rest self1))"

definition extract_all_places ::
  "nat \<Rightarrow> api \<Rightarrow> config \<Rightarrow> state \<Rightarrow> GridCell list \<Rightarrow> int \<Rightarrow> (exn option \<times> state) option" where
  "extract_all_places fuel gmaps config self grid start_from =
     cells_loop fuel gmaps config grid (py_range start_from (int (length grid))) self"

text \<open>
  \<^verbatim>\<open>main\<close>, once the API key is set: the exit status of the process and the state it
  leaves. An exception of \<^verbatim>\<open>generate_grid\<close> is raised outside the \<^verbatim>\<open>try\<close> and ends the
  process at once. The output file is not modelled; on success the checkpoint file is
  removed. Both \<^verbatim>\<open>except\<close> clauses save a checkpoint and exit with status 1.
\<close>

definition main :: "nat \<Rightarrow> api \<Rightarrow> config \<Rightarrow> state \<Rightarrow> (int \<times> state) option" where
  "main fuel gmaps config world =
     (case generate_grid config of
        Inl e \<Rightarrow> Some (1, world)
      | Inr grid \<Rightarrow>
          (let extractor = init world;
               loaded = (if ENABLE_CHECKPOINTING config then load_checkpoint extractor
                         else (None, extractor));
               resume_from = (case fst loaded of None \<Rightarrow> 0 | Some r \<Rightarrow> r)
           in case extract_all_places fuel gmaps config (snd loaded) grid resume_from of
                None \<Rightarrow> None
              | Some (None, self) \<Rightarrow>
                  Some (0, if ENABLE_CHECKPOINTING config
                           then self \<lparr> checkpoint_file := None \<rparr> else self)
              | Some (Some e, self) \<Rightarrow>
                  Some (1, save_checkpoint
                     (logger (if e = KeyboardInterrupt then Warning_interrupted
                              else Error_fatal e) self))))"

section \<open>Concrete inputs\<close>

text \<open>An empty environment, before any extractor has run.\<close>

definition world0 :: state where
  "world0 = \<lparr> seen_place_ids = {||}, places = [], total_api_calls = 0,
     total_duplicates_skipped = 0, current_cell_index = 0, logged = [], trace = [],
     checkpoint_file = None, now = ''2024-01-01T00:00:00'' \<rparr>"

text \<open>The box (0,0)-(2,2) divided 2 by 2.\<close>

definition mesh_config :: config where
  "mesh_config = default_config \<lparr> BBOX_NORTH := 2, BBOX_SOUTH := 0, BBOX_EAST := 2,
     BBOX_WEST := 0, GRID_LAT_DIVISIONS := 2, GRID_LNG_DIVISIONS := 2 \<rparr>"

text \<open>Raw results: one without \<^verbatim>\<open>place_id\<close>, and two sightings of one id.\<close>

definition nameless_result :: result_dict where
  "nameless_result = \<lparr> result_place_id = None, result_name = Some ''Kiosk'',
     result_types = Some [''store''], result_geometry = None \<rparr>"

definition kiosk :: result_dict where
  "kiosk = \<lparr> result_place_id = Some ''ChIJ1'', result_name = Some ''Kiosk'',
     result_types = Some [''store''],
     result_geometry =
       Some \<lparr> geometry_location = Some \<lparr> lat = Some 18.1, lng = Some (-15.9) \<rparr> \<rparr> \<rparr>"

definition kiosk_renamed :: result_dict where
  "kiosk_renamed = \<lparr> result_place_id = Some ''ChIJ1'', result_name = Some ''Kiosque'',
     result_types = None, result_geometry = None \<rparr>"

text \<open>An extractor in the middle of a run, and a checkpoint file that lost a key.\<close>

definition visited :: state where
  "visited = world0 \<lparr>
     seen_place_ids := {|''ChIJ1'', ''ChIJ2''|},
     places := [(''ChIJ1'', \<lparr> place_id = ''ChIJ1'', name = ''Kiosk'', types = [''store''],
                   latitude = 18.1, longitude = -15.9 \<rparr>),
                (''ChIJ2'', \<lparr> place_id = ''ChIJ2'', name = [], types = [],
                   latitude = 0, longitude = 0 \<rparr>)],
     total_api_calls := 364, total_duplicates_skipped := 17, current_cell_index := 4 \<rparr>"

definition corrupt_checkpoint :: checkpoint_data where
  "corrupt_checkpoint = \<lparr>
     d_checkpoint = Some \<lparr> d_last_completed_cell_index = Some 3, d_total_unique_places = Some 1,
        d_total_api_calls = None, d_total_duplicates_skipped = Some 0,
        d_timestamp = Some ''2024-01-01T00:00:00'' \<rparr>,
     d_seen_place_ids = Some [''ChIJ1''],
     d_places = Some [] \<rparr>"

text \<open>
  Remote APIs: one that always raises, one that serves three pages, and a service
  that denies every request; and a cell center to search around.
\<close>

definition failing_api :: api where
  "failing_api n r = Raises (ApiError ''timeout'')"

definition cell_location :: "real \<times> real" where
  "cell_location = (17.96, -16.0875)"

definition three_page_api :: api where
  "three_page_api n r =
     (if n = 0 then Returns \<lparr> status = Some ''OK'', results = Some [kiosk],
                      resp_next_page_token = Some ''t1'' \<rparr>
      else if n = 1 then Returns \<lparr> status = Some ''OK'', results = Some [kiosk_renamed],
                      resp_next_page_token = Some ''t2'' \<rparr>
      else Returns \<lparr> status = Some ''OK'', results = Some [nameless_result],
                      resp_next_page_token = None \<rparr>)"

definition denying_service :: "nat \<Rightarrow> request \<Rightarrow> service_answer" where
  "denying_service n r = Body \<lparr> status = Some ''REQUEST_DENIED'', results = None,
     resp_next_page_token = None \<rparr>"

text \<open>
  A small run: one row of two cells, the type \<^verbatim>\<open>cafe\<close> and the generic search, so two
  searches per cell. The API answers every request with one place, named after the
  type asked and the side of the box; a second API is the same but for its second
  request, during which the operator's interrupt arrives.
\<close>

definition two_cell_config :: config where
  "two_cell_config = default_config \<lparr> GRID_LAT_DIVISIONS := 1, GRID_LNG_DIVISIONS := 2,
     PLACE_TYPES := [''cafe''] \<rparr>"

definition place_for :: "request \<Rightarrow> result_dict" where
  "place_for r =
     \<lparr> result_place_id =
         Some ((case req_type r of None \<Rightarrow> ''any'' | Some t \<Rightarrow> t)
               @ (if snd (req_location r) < -16 then ''-west'' else ''-east'')),
       result_name = None, result_types = None, result_geometry = None \<rparr>"

definition steady_api :: api where
  "steady_api n r = Returns \<lparr> status = Some ''OK'', results = Some [place_for r],
     resp_next_page_token = None \<rparr>"

definition interrupting_api :: api where
  "interrupting_api n r = (if n = 1 then Raises KeyboardInterrupt else steady_api n r)"

text \<open>What the interrupted run leaves: one place, and a checkpoint naming cell 0.\<close>

definition west_cafe :: Place where
  "west_cafe = \<lparr> place_id = ''cafe-west'', name = [], types = [], latitude = 0, longitude = 0 \<rparr>"

definition interrupted :: state where
  "interrupted = world0 \<lparr>
     seen_place_ids := {|''cafe-west''|},
     places := [(''cafe-west'', west_cafe)],
     total_api_calls := 2,
     logged := [Warning_interrupted],
     trace := [Requested \<lparr> req_location = (18.05, -16.0375), req_radius = 1000,
                   req_type = Some ''cafe'', req_page_token = None \<rparr>,
               Slept 0.5,
               Requested \<lparr> req_location = (18.05, -16.0375), req_radius = 1000,
                   req_type = None, req_page_token = None \<rparr>],
     checkpoint_file := Some (Json \<lparr>
        d_checkpoint = Some \<lparr> d_last_completed_cell_index = Some 0,
           d_total_unique_places = Some 1, d_total_api_calls = Some 2,
           d_total_duplicates_skipped = Some 0, d_timestamp = Some ''2024-01-01T00:00:00'' \<rparr>,
        d_seen_place_ids = Some [''cafe-west''],
        d_places = Some [to_dict west_cafe] \<rparr>) \<rparr>"

section \<open>Grid generator: properties\<close>

lemma foldl_snoc_map: "foldl (\<lambda>acc x. acc @ [f x]) acc xs = acc @ map f xs"
  by (induction xs arbitrary: acc) simp_all

lemma foldl_append_concat: "foldl (\<lambda>acc x. acc @ g x) acc xs = acc @ concat (map g xs)"
  by (induction xs arbitrary: acc) simp_all

lemma length_concat_uniform:
  "(\<And>x. x \<in> set xs \<Longrightarrow> length (g x) = n) \<Longrightarrow> length (concat (map g xs)) = length xs * n"
  by (induction xs) simp_all

lemma nth_concat_uniform:
  "(\<And>x. x \<in> set xs \<Longrightarrow> length (g x) = n) \<Longrightarrow> i < length xs \<Longrightarrow> j < n \<Longrightarrow>
   concat (map g xs) ! (i * n + j) = g (xs ! i) ! j"
proof (induction xs arbitrary: i)
  case Nil
  then show ?case by simp
next
  case (Cons x xs)
  show ?case
  proof (cases i)
    case 0
    with Cons.prems show ?thesis by (simp add: nth_append)
  next
    case (Suc k)
    have "length (g x) = n" using Cons.prems(1) by simp
    moreover have "concat (map g xs) ! (k * n + j) = g (xs ! k) ! j"
      using Cons.IH [of k] Cons.prems Suc by simp
    ultimately show ?thesis using Suc by (simp add: nth_append add.assoc [symmetric] add.commute)
  qed
qed

text \<open>With both counts non-zero the two loops build the rows one after the other.\<close>

lemma generate_grid_eq:
  "GRID_LAT_DIVISIONS config \<noteq> 0 \<Longrightarrow> GRID_LNG_DIVISIONS config \<noteq> 0 \<Longrightarrow>
   generate_grid config =
     Inr (concat (map (\<lambda>r. map (grid_cell config
            ((BBOX_NORTH config - BBOX_SOUTH config) / of_int (GRID_LAT_DIVISIONS config))
            ((BBOX_EAST config - BBOX_WEST config) / of_int (GRID_LNG_DIVISIONS config)) r)
            (py_range 0 (GRID_LNG_DIVISIONS config)))
          (py_range 0 (GRID_LAT_DIVISIONS config))))"
  by (simp add: generate_grid_def py_truediv_def foldl_snoc_map foldl_append_concat)

text \<open>
  C4. For positive division counts \<open>rows\<close> and \<open>columns\<close>, \<^verbatim>\<open>generate_grid\<close> returns
  exactly \<open>rows * columns\<close> cells in row-major order: the cell at position
  \<open>r * columns + c\<close> is cell \<open>(r, c)\<close>, whose center is
  \<open>south + (r + 0.5) * latStep\<close>, \<open>west + (c + 0.5) * lngStep\<close> with
  \<open>latStep = (north - south) / rows\<close> and \<open>lngStep = (east - west) / columns\<close>
  (floats read as reals).
\<close>

theorem generate_grid_cells:
  assumes "0 < GRID_LAT_DIVISIONS config" and "0 < GRID_LNG_DIVISIONS config"
  shows "\<exists>cells. generate_grid config = Inr cells
     \<and> length cells = nat (GRID_LAT_DIVISIONS config) * nat (GRID_LNG_DIVISIONS config)
     \<and> (\<forall>r < nat (GRID_LAT_DIVISIONS config). \<forall>c < nat (GRID_LNG_DIVISIONS config).
          cells ! (r * nat (GRID_LNG_DIVISIONS config) + c) =
            \<lparr> row = int r, col = int c,
              center_lat = BBOX_SOUTH config + (real r + 0.5) *
                 ((BBOX_NORTH config - BBOX_SOUTH config) / of_int (GRID_LAT_DIVISIONS config)),
              center_lng = BBOX_WEST config + (real c + 0.5) *
                 ((BBOX_EAST config - BBOX_WEST config) / of_int (GRID_LNG_DIVISIONS config)) \<rparr>)"
proof -
  let ?R = "GRID_LAT_DIVISIONS config" and ?C = "GRID_LNG_DIVISIONS config"
  let ?g = "\<lambda>r. map (grid_cell config
            ((BBOX_NORTH config - BBOX_SOUTH config) / of_int ?R)
            ((BBOX_EAST config - BBOX_WEST config) / of_int ?C) r) (py_range 0 ?C)"
  let ?cells = "concat (map ?g (py_range 0 ?R))"
  have eq: "generate_grid config = Inr ?cells"
    using assms by (intro generate_grid_eq) simp_all
  have len_row: "\<And>r. length (?g r) = nat ?C" by (simp add: py_range_def)
  have len: "length ?cells = nat ?R * nat ?C"
    using length_concat_uniform [of "py_range 0 ?R" ?g "nat ?C"] len_row
    by (simp add: py_range_def)
  have nth: "?cells ! (r * nat ?C + c) =
            \<lparr> row = int r, col = int c,
              center_lat = BBOX_SOUTH config + (real r + 0.5) *
                 ((BBOX_NORTH config - BBOX_SOUTH config) / of_int ?R),
              center_lng = BBOX_WEST config + (real c + 0.5) *
                 ((BBOX_EAST config - BBOX_WEST config) / of_int ?C) \<rparr>"
    if "r < nat ?R" "c < nat ?C" for r c
  proof -
    have "?cells ! (r * nat ?C + c) = ?g (py_range 0 ?R ! r) ! c"
      using that len_row by (intro nth_concat_uniform) (simp_all add: py_range_def)
    also have "\<dots> = grid_cell config
            ((BBOX_NORTH config - BBOX_SOUTH config) / of_int ?R)
            ((BBOX_EAST config - BBOX_WEST config) / of_int ?C) (int r) (int c)"
      using that by (simp add: py_range_def)
    finally show ?thesis by (simp add: grid_cell_def)
  qed
  show ?thesis using eq len nth by blast
qed

text \<open>The 2 by 2 mesh over (0,0)-(2,2): four cells, the last one centered at (1.5, 1.5).\<close>

theorem generate_grid_cells_witness:
  "\<exists>cells. generate_grid mesh_config = Inr cells \<and> length cells = 4
     \<and> cells ! 3 = \<lparr> row = 1, col = 1, center_lat = 1.5, center_lng = 1.5 \<rparr>"
proof -
  have pos: "0 < GRID_LAT_DIVISIONS mesh_config" "0 < GRID_LNG_DIVISIONS mesh_config"
    by (simp_all add: mesh_config_def)
  from generate_grid_cells [OF pos] obtain cells where
    eq: "generate_grid mesh_config = Inr cells" and
    len: "length cells = nat (GRID_LAT_DIVISIONS mesh_config) * nat (GRID_LNG_DIVISIONS mesh_config)" and
    nth: "\<forall>r < nat (GRID_LAT_DIVISIONS mesh_config). \<forall>c < nat (GRID_LNG_DIVISIONS mesh_config).
          cells ! (r * nat (GRID_LNG_DIVISIONS mesh_config) + c) =
            \<lparr> row = int r, col = int c,
              center_lat = BBOX_SOUTH mesh_config + (real r + 0.5) *
                 ((BBOX_NORTH mesh_config - BBOX_SOUTH mesh_config)
                    / of_int (GRID_LAT_DIVISIONS mesh_config)),
              center_lng = BBOX_WEST mesh_config + (real c + 0.5) *
                 ((BBOX_EAST mesh_config - BBOX_WEST mesh_config)
                    / of_int (GRID_LNG_DIVISIONS mesh_config)) \<rparr>"
    by blast
  have "cells ! (1 * nat (GRID_LNG_DIVISIONS mesh_config) + 1) =
      \<lparr> row = int 1, col = int 1,
        center_lat = BBOX_SOUTH mesh_config + (real 1 + 0.5) *
           ((BBOX_NORTH mesh_config - BBOX_SOUTH mesh_config)
              / of_int (GRID_LAT_DIVISIONS mesh_config)),
        center_lng = BBOX_WEST mesh_config + (real 1 + 0.5) *
           ((BBOX_EAST mesh_config - BBOX_WEST mesh_config)
              / of_int (GRID_LNG_DIVISIONS mesh_config)) \<rparr>"
    using nth [rule_format, of 1 1] by (simp add: mesh_config_def)
  then have "cells ! 3 = \<lparr> row = 1, col = 1, center_lat = 1.5, center_lng = 1.5 \<rparr>"
    by (simp add: mesh_config_def)
  with eq len show ?thesis by (simp add: mesh_config_def)
qed

text \<open>The same mesh computed by the definition: the centers in row-major order.\<close>

lemma generate_grid_mesh:
  "generate_grid mesh_config = Inr
     [\<lparr> row = 0, col = 0, center_lat = 0.5, center_lng = 0.5 \<rparr>,
      \<lparr> row = 0, col = 1, center_lat = 0.5, center_lng = 1.5 \<rparr>,
      \<lparr> row = 1, col = 0, center_lat = 1.5, center_lng = 0.5 \<rparr>,
      \<lparr> row = 1, col = 1, center_lat = 1.5, center_lng = 1.5 \<rparr>]"
  by (simp add: generate_grid_def mesh_config_def default_config_def py_truediv_def
        py_range_def grid_cell_def upt_rec)

text \<open>
  C5, as the code has it, for division counts that have a float (magnitude below
  \<open>float_int_limit\<close>). A count of zero makes the step's division raise
  \<^verbatim>\<open>ZeroDivisionError\<close>; with both counts non-zero and one of them negative the
  result is the empty list and nothing is raised.
\<close>

theorem generate_grid_degenerate:
  assumes "\<bar>GRID_LAT_DIVISIONS config\<bar> < float_int_limit"
    and "\<bar>GRID_LNG_DIVISIONS config\<bar> < float_int_limit"
  shows "(GRID_LAT_DIVISIONS config = 0 \<or> GRID_LNG_DIVISIONS config = 0
      \<longrightarrow> generate_grid config = Inl ZeroDivisionError)
   \<and> (GRID_LAT_DIVISIONS config \<noteq> 0 \<and> GRID_LNG_DIVISIONS config \<noteq> 0
       \<and> (GRID_LAT_DIVISIONS config < 0 \<or> GRID_LNG_DIVISIONS config < 0)
      \<longrightarrow> generate_grid config = Inr [])"
  by (auto simp add: generate_grid_def py_truediv_def py_range_def
        foldl_snoc_map foldl_append_concat)

theorem generate_grid_degenerate_witness:
  "generate_grid (default_config \<lparr> GRID_LNG_DIVISIONS := 0 \<rparr>) = Inl ZeroDivisionError
   \<and> generate_grid (default_config \<lparr> GRID_LAT_DIVISIONS := -3 \<rparr>) = Inr []"
  using generate_grid_degenerate [of "default_config \<lparr> GRID_LNG_DIVISIONS := 0 \<rparr>"]
    generate_grid_degenerate [of "default_config \<lparr> GRID_LAT_DIVISIONS := -3 \<rparr>"]
  by (simp add: default_config_def float_int_limit_def)

text \<open>C5 as stated fails: zero rows raise instead of giving the empty sequence.\<close>

theorem generate_grid_zero_rows_raises:
  "generate_grid (default_config \<lparr> GRID_LAT_DIVISIONS := 0 \<rparr>) = Inl ZeroDivisionError"
  by (simp add: generate_grid_def py_truediv_def default_config_def)

section \<open>Deduplicating collector: properties\<close>

text \<open>The three branches of \<^verbatim>\<open>process_result\<close>.\<close>

lemma process_result_no_id:
  "\<not> truthy (result_place_id result) \<Longrightarrow>
   process_result self result =
     self \<lparr> logged := logged self @ [Warning_no_place_id (get_or ''unknown'' (result_name result))] \<rparr>"
  by (simp add: process_result_def logger_def)

lemma process_result_seen:
  "result_place_id result = Some pid \<Longrightarrow> pid \<noteq> [] \<Longrightarrow> pid |\<in>| seen_place_ids self \<Longrightarrow>
   process_result self result =
     self \<lparr> total_duplicates_skipped := total_duplicates_skipped self + 1 \<rparr>"
  by (simp add: process_result_def)

lemma process_result_new:
  "result_place_id result = Some pid \<Longrightarrow> pid \<noteq> [] \<Longrightarrow> pid |\<notin>| seen_place_ids self \<Longrightarrow>
   process_result self result =
     self \<lparr> seen_place_ids := finsert pid (seen_place_ids self),
            places := AList.update pid
              \<lparr> place_id = pid,
                name = get_or [] (result_name result),
                types = get_or [] (result_types result),
                latitude = get_or 0 (lat (get_or \<lparr> lat = None, lng = None \<rparr>
                   (geometry_location (get_or \<lparr> geometry_location = None \<rparr> (result_geometry result))))),
                longitude = get_or 0 (lng (get_or \<lparr> lat = None, lng = None \<rparr>
                   (geometry_location (get_or \<lparr> geometry_location = None \<rparr> (result_geometry result))))) \<rparr>
              (places self) \<rparr>"
  by (simp add: process_result_def Let_def)

text \<open>Once the id is seen, every further record with it only moves the duplicate counter.\<close>

lemma foldl_process_result_seen:
  "\<forall>r \<in> set rs. result_place_id r = Some pid \<Longrightarrow> pid \<noteq> [] \<Longrightarrow> pid |\<in>| seen_place_ids self \<Longrightarrow>
   foldl process_result self rs =
     self \<lparr> total_duplicates_skipped := total_duplicates_skipped self + int (length rs) \<rparr>"
proof (induction rs arbitrary: self)
  case Nil
  then show ?case by simp
next
  case (Cons r rs)
  have step: "process_result self r =
      self \<lparr> total_duplicates_skipped := total_duplicates_skipped self + 1 \<rparr>"
    using Cons.prems by (intro process_result_seen) simp_all
  have "foldl process_result (process_result self r) rs =
      (process_result self r) \<lparr> total_duplicates_skipped :=
         total_duplicates_skipped (process_result self r) + int (length rs) \<rparr>"
    using Cons.prems by (intro Cons.IH) (simp_all add: step)
  then show ?case by (simp add: step)
qed

lemma filter_key_distinct:
  "distinct (map fst xs) \<Longrightarrow> k \<in> fst ` set xs \<Longrightarrow> length (filter (\<lambda>kv. fst kv = k) xs) = 1"
proof (induction xs)
  case Nil
  then show ?case by simp
next
  case (Cons x xs)
  show ?case
  proof (cases "fst x = k")
    case True
    then have "filter (\<lambda>kv. fst kv = k) xs = []"
      using Cons.prems(1) by (force simp: filter_empty_conv image_iff)
    with True show ?thesis by simp
  next
    case False
    with Cons show ?thesis by auto
  qed
qed

text \<open>
  C3. A record \<open>r0\<close> with a (non-empty) id not seen before is ingested, then any
  records \<open>rs\<close> with the same id. The collection (a dict, so with distinct keys) then
  holds exactly one entry for the id, the Place captured from \<open>r0\<close>; the later
  sightings change neither the places nor the seen ids; the first ingestion leaves the
  duplicate counter alone and each later one adds one to it.
\<close>

theorem process_result_same_id:
  assumes "pid \<noteq> []" and "result_place_id r0 = Some pid"
    and "\<forall>r \<in> set rs. result_place_id r = Some pid"
    and "pid |\<notin>| seen_place_ids self"
    and "distinct (map fst (places self))"
  shows "map_of (places (process_result self r0)) pid =
      Some \<lparr> place_id = pid,
             name = get_or [] (result_name r0),
             types = get_or [] (result_types r0),
             latitude = get_or 0 (lat (get_or \<lparr> lat = None, lng = None \<rparr>
                (geometry_location (get_or \<lparr> geometry_location = None \<rparr> (result_geometry r0))))),
             longitude = get_or 0 (lng (get_or \<lparr> lat = None, lng = None \<rparr>
                (geometry_location (get_or \<lparr> geometry_location = None \<rparr> (result_geometry r0))))) \<rparr>
    \<and> total_duplicates_skipped (process_result self r0) = total_duplicates_skipped self
    \<and> places (foldl process_result (process_result self r0) rs) = places (process_result self r0)
    \<and> seen_place_ids (foldl process_result (process_result self r0) rs) =
        finsert pid (seen_place_ids self)
    \<and> length (filter (\<lambda>kv. fst kv = pid) (places (foldl process_result (process_result self r0) rs))) = 1
    \<and> total_duplicates_skipped (foldl process_result (process_result self r0) rs) =
        total_duplicates_skipped self + int (length rs)"
proof -
  let ?first = "process_result self r0"
  note new = process_result_new [OF assms(2) assms(1) assms(4)]
  have seen: "pid |\<in>| seen_place_ids ?first" by (simp add: new)
  note rest = foldl_process_result_seen [OF assms(3) assms(1) seen]
  have one: "length (filter (\<lambda>kv. fst kv = pid) (places ?first)) = 1"
    using assms(5) by (intro filter_key_distinct) (simp_all add: new distinct_update dom_update)
  have look: "map_of (places ?first) pid = Some \<lparr> place_id = pid,
             name = get_or [] (result_name r0),
             types = get_or [] (result_types r0),
             latitude = get_or 0 (lat (get_or \<lparr> lat = None, lng = None \<rparr>
                (geometry_location (get_or \<lparr> geometry_location = None \<rparr> (result_geometry r0))))),
             longitude = get_or 0 (lng (get_or \<lparr> lat = None, lng = None \<rparr>
                (geometry_location (get_or \<lparr> geometry_location = None \<rparr> (result_geometry r0))))) \<rparr>"
    by (simp add: new update_conv')
  have dup: "total_duplicates_skipped ?first = total_duplicates_skipped self"
    by (simp add: new)
  show ?thesis
    using look dup one by (simp add: rest) (simp add: new)
qed

text \<open>
  A fresh collector ingests a record three times, the third time under another name:
  one Place, with the first name, and two duplicates.
\<close>

theorem process_result_same_id_witness:
  "places (foldl process_result (process_result world0 kiosk) [kiosk, kiosk_renamed]) =
     [(''ChIJ1'', \<lparr> place_id = ''ChIJ1'', name = ''Kiosk'', types = [''store''],
         latitude = 18.1, longitude = -15.9 \<rparr>)]
   \<and> total_duplicates_skipped
        (foldl process_result (process_result world0 kiosk) [kiosk, kiosk_renamed]) = 2"
  using process_result_same_id [of "''ChIJ1''" kiosk "[kiosk, kiosk_renamed]" world0]
  by (simp add: kiosk_def kiosk_renamed_def world0_def process_result_def get_or_def)

text \<open>
  C9, as the code has it. A record whose id is missing (or empty) is dropped: the
  state after \<^verbatim>\<open>process_result\<close> is the state before but for one warning added to the
  log. So the places, the seen ids, the duplicate counter and every other counter are
  unchanged: the skip is logged, not counted. The function is total: nothing is raised.
\<close>

theorem process_result_without_id:
  assumes "\<not> truthy (result_place_id result)"
  shows "process_result self result =
     self \<lparr> logged := logged self @ [Warning_no_place_id (get_or ''unknown'' (result_name result))] \<rparr>"
  using assms by (rule process_result_no_id)

theorem process_result_without_id_witness:
  "process_result world0 nameless_result = world0 \<lparr> logged := [Warning_no_place_id ''Kiosk''] \<rparr>"
  using process_result_without_id [of nameless_result world0]
  by (simp add: nameless_result_def world0_def get_or_def)

text \<open>
  C9 as stated fails: the extractor keeps three numbers (API calls, duplicates skipped,
  current cell index) besides the sizes of its two collections, and none of them moves
  when a record without id is ingested. No malformed-record skip is counted.
\<close>

theorem malformed_skip_not_counted:
  "total_api_calls (process_result world0 nameless_result) = total_api_calls world0
   \<and> total_duplicates_skipped (process_result world0 nameless_result) =
       total_duplicates_skipped world0
   \<and> current_cell_index (process_result world0 nameless_result) = current_cell_index world0
   \<and> length (places (process_result world0 nameless_result)) = length (places world0)
   \<and> seen_place_ids (process_result world0 nameless_result) = seen_place_ids world0"
  by (simp add: process_result_def nameless_result_def world0_def logger_def)

text \<open>
  The collector keeps \<^verbatim>\<open>places\<close> a dict whose entries are stored under their own id:
  both conditions hold of the empty dict and are kept by every ingestion.
\<close>

lemma update_own_key:
  "\<forall>(k, p) \<in> set al. place_id p = k \<Longrightarrow> place_id v = key \<Longrightarrow>
   \<forall>(k, p) \<in> set (AList.update key v al). place_id p = k"
  by (induction al) auto

lemma process_result_keeps_dict:
  assumes "distinct (map fst (places self))" and "\<forall>(k, p) \<in> set (places self). place_id p = k"
  shows "distinct (map fst (places (process_result self result)))
     \<and> (\<forall>(k, p) \<in> set (places (process_result self result)). place_id p = k)"
proof (cases "truthy (result_place_id result)")
  case False
  then show ?thesis using assms by (simp add: process_result_no_id)
next
  case True
  then obtain pid where pid: "result_place_id result = Some pid" "pid \<noteq> []"
    by (cases "result_place_id result") simp_all
  show ?thesis
  proof (cases "pid |\<in>| seen_place_ids self")
    case True
    then show ?thesis using assms pid by (simp add: process_result_seen)
  next
    case False
    note new = process_result_new [OF pid False]
    have d: "distinct (map fst (places (process_result self result)))"
      using assms(1) by (simp add: new distinct_update)
    obtain v where v: "places (process_result self result) = AList.update pid v (places self)"
      and key: "place_id v = pid"
      by (simp add: new)
    have "\<forall>(k, p) \<in> set (places (process_result self result)). place_id p = k"
      unfolding v using assms(2) key by (rule update_own_key)
    with d show ?thesis by simp
  qed
qed

lemma foldl_process_result_keeps_dict:
  "distinct (map fst (places self)) \<Longrightarrow> \<forall>(k, p) \<in> set (places self). place_id p = k \<Longrightarrow>
   distinct (map fst (places (foldl process_result self rs)))
     \<and> (\<forall>(k, p) \<in> set (places (foldl process_result self rs)). place_id p = k)"
proof (induction rs arbitrary: self)
  case Nil
  then show ?case by simp
next
  case (Cons r rs)
  from process_result_keeps_dict [OF Cons.prems, of r]
  have "distinct (map fst (places (process_result self r)))"
    and "\<forall>(k, p) \<in> set (places (process_result self r)). place_id p = k"
    by blast+
  from Cons.IH [OF this] show ?case by simp
qed

section \<open>Checkpoint store: properties\<close>

lemma Place_of_dict_to_dict: "Place_of_dict (to_dict p) = Inr p"
  by (simp add: Place_of_dict_def to_dict_def)

text \<open>Reading back what \<^verbatim>\<open>save_checkpoint\<close> wrote stores every place under its own id.\<close>

lemma restore_places_to_dict:
  "restore_places (map (\<lambda>(k, place). to_dict place) ps) self =
     (None, self \<lparr> places := foldl (\<lambda>acc (k, place). AList.update (place_id place) place acc)
                                (places self) ps \<rparr>)"
proof (induction ps arbitrary: self)
  case Nil
  then show ?case by simp
next
  case (Cons a ps)
  then show ?case by (cases a) (simp add: Place_of_dict_to_dict)
qed

lemma update_absent: "k \<notin> fst ` set al \<Longrightarrow> AList.update k v al = al @ [(k, v)]"
  by (induction al) auto

lemma foldl_update_fresh:
  "distinct (map fst (acc @ ps)) \<Longrightarrow> \<forall>(k, p) \<in> set ps. place_id p = k \<Longrightarrow>
   foldl (\<lambda>acc (k, place). AList.update (place_id place) place acc) acc ps = acc @ ps"
proof (induction ps arbitrary: acc)
  case Nil
  then show ?case by simp
next
  case (Cons a ps)
  obtain k p where a: "a = (k, p)" by (cases a)
  have key: "place_id p = k" using Cons.prems(2) a by simp
  have absent: "k \<notin> fst ` set acc" using Cons.prems(1) a by auto
  have "foldl (\<lambda>acc (k, place). AList.update (place_id place) place acc) (acc @ [a]) ps
      = (acc @ [a]) @ ps"
    using Cons.prems by (intro Cons.IH) simp_all
  then show ?case using a key absent by (simp add: update_absent)
qed

lemma foldl_update_present:
  "\<forall>(k, p) \<in> set ps. place_id p = k \<and> map_of al k = Some p \<Longrightarrow>
   foldl (\<lambda>acc (k, place). AList.update (place_id place) place acc) al ps = al"
proof (induction ps)
  case Nil
  then show ?case by simp
next
  case (Cons a ps)
  then show ?case by (cases a) (simp add: update_triv)
qed

text \<open>
  C2. The extractor's \<^verbatim>\<open>places\<close> is a dict whose entries are stored under their own
  \<^verbatim>\<open>place_id\<close> (so the code builds it). Then \<^verbatim>\<open>save_checkpoint\<close> writes the current cell
  index as \<^verbatim>\<open>last_completed_cell_index\<close> and changes nothing of the extractor;
  \<^verbatim>\<open>load_checkpoint\<close> on the written file returns that index plus one, and leaves the
  seen ids, the places and the two counters as they were saved, both in the same
  extractor and in a freshly initialised one (where only \<^verbatim>\<open>current_cell_index\<close>, which
  the load does not touch, is zero).
\<close>

theorem checkpoint_round_trip:
  assumes "distinct (map fst (places self))" and "\<forall>(k, p) \<in> set (places self). place_id p = k"
  shows "(\<exists>data ck. checkpoint_file (save_checkpoint self) = Some (Json data)
            \<and> d_checkpoint data = Some ck
            \<and> d_last_completed_cell_index ck = Some (current_cell_index self))
     \<and> load_checkpoint (save_checkpoint self) =
         (Some (current_cell_index self + 1), save_checkpoint self)
     \<and> seen_place_ids (save_checkpoint self) = seen_place_ids self
     \<and> places (save_checkpoint self) = places self
     \<and> total_api_calls (save_checkpoint self) = total_api_calls self
     \<and> total_duplicates_skipped (save_checkpoint self) = total_duplicates_skipped self
     \<and> load_checkpoint (init (save_checkpoint self)) =
         (Some (current_cell_index self + 1),
          (save_checkpoint self) \<lparr> current_cell_index := 0 \<rparr>)"
proof -
  have present: "\<forall>(k, p) \<in> set (places self). place_id p = k \<and> map_of (places self) k = Some p"
    using assms by auto
  have same: "foldl (\<lambda>acc (k, place). AList.update (place_id place) place acc)
      (places self) (places self) = places self"
    using present by (rule foldl_update_present)
  have fresh: "foldl (\<lambda>acc (k, place). AList.update (place_id place) place acc)
      [] (places self) = places self"
    using foldl_update_fresh [of "[]" "places self"] assms by simp
  have 1: "load_checkpoint (save_checkpoint self) =
         (Some (current_cell_index self + 1), save_checkpoint self)"
    by (simp add: load_checkpoint_def save_checkpoint_def load_checkpoint_try_def
          restore_places_to_dict same Let_def)
  have 2: "load_checkpoint (init (save_checkpoint self)) =
         (Some (current_cell_index self + 1),
          (save_checkpoint self) \<lparr> current_cell_index := 0 \<rparr>)"
    by (simp add: load_checkpoint_def save_checkpoint_def load_checkpoint_try_def init_def
          restore_places_to_dict fresh Let_def)
  show ?thesis
    using 1 2 by (simp add: save_checkpoint_def Let_def)
qed

theorem checkpoint_round_trip_witness:
  "load_checkpoint (save_checkpoint visited) = (Some 5, save_checkpoint visited)
   \<and> load_checkpoint (init (save_checkpoint visited)) =
       (Some 5, (save_checkpoint visited) \<lparr> current_cell_index := 0 \<rparr>)"
  using checkpoint_round_trip [of visited]
  by (simp add: visited_def world0_def)

text \<open>A missing file and a file that does not parse leave the extractor as it was.\<close>

lemma load_checkpoint_absent:
  "checkpoint_file self = None \<Longrightarrow> load_checkpoint self = (None, self)"
  by (simp add: load_checkpoint_def)

lemma load_checkpoint_unparseable:
  "checkpoint_file self = Some Unparseable \<Longrightarrow>
   load_checkpoint self = (None, logger (Error_load_checkpoint ValueError) self)"
  by (simp add: load_checkpoint_def load_checkpoint_try_def)

text \<open>
  C10 fails on a file that parses but lacks a key read late. The file below has no
  \<^verbatim>\<open>total_api_calls\<close>: \<^verbatim>\<open>load_checkpoint\<close> logs the error and returns \<open>None\<close>, but the
  seen ids were already replaced by the file's, so the fresh extraction that follows
  skips the place \<^verbatim>\<open>ChIJ1\<close> as a duplicate and never collects it.
\<close>

theorem load_checkpoint_corrupt:
  "load_checkpoint (world0 \<lparr> checkpoint_file := Some (Json corrupt_checkpoint) \<rparr>) =
     (None, world0 \<lparr> checkpoint_file := Some (Json corrupt_checkpoint),
                     seen_place_ids := {|''ChIJ1''|},
                     logged := [Error_load_checkpoint (KeyError ''total_api_calls'')] \<rparr>)
   \<and> places (process_result
        (snd (load_checkpoint (world0 \<lparr> checkpoint_file := Some (Json corrupt_checkpoint) \<rparr>)))
        kiosk) = []"
  by (simp add: load_checkpoint_def load_checkpoint_try_def corrupt_checkpoint_def world0_def
        logger_def process_result_def kiosk_def)

section \<open>Search executor: properties\<close>

text \<open>The recursion of the retry loop is unfolded by hand.\<close>

declare retry_loop.simps [simp del]

lemma requests_issued_simps [simp]:
  "requests_issued (self \<lparr> total_api_calls := n \<rparr>) = requests_issued self"
  "requests_issued (self \<lparr> trace := trace self @ [Requested r] \<rparr>) = Suc (requests_issued self)"
  "requests_issued (self \<lparr> trace := trace self @ [Slept d] \<rparr>) = requests_issued self"
  "requests_issued (logger l self) = requests_issued self"
  by (simp_all add: requests_issued_def logger_def)

lemma attempt_Raises:
  "gmaps (requests_issued self) (build_kwargs location radius place_type (next_page_token v)) = Raises e \<Longrightarrow>
   attempt gmaps config location radius place_type (v, self) =
     (Some e, v, self \<lparr> total_api_calls := total_api_calls self + 1,
         trace := trace self @ [Requested (build_kwargs location radius place_type (next_page_token v))] \<rparr>)"
  by (simp add: attempt_def Let_def)

lemma retry_loop_success:
  "retry_count < MAX_RETRIES config \<Longrightarrow>
   attempt gmaps config location radius place_type vs = (None, v', self') \<Longrightarrow>
   retry_loop gmaps config location radius place_type retry_count delay vs = Fallthrough v' self'"
  by (simp add: retry_loop.simps)

lemma upt_Suc_shift: "[0..<Suc k] = 0 # map Suc [0..<k]"
  by (simp add: upt_conv_Cons map_Suc_upt del: upt_Suc)

text \<open>
  The retry loop under an API that always raises, from any retry count below the
  maximum and with any results accumulated so far: it returns those results.
\<close>

lemma retry_loop_always_raises:
  assumes fails: "\<And>n r. \<exists>e. gmaps n r = Raises e \<and> is_Exception e"
  shows "0 \<le> delay \<Longrightarrow> MAX_RETRIES config - retry_count = int (Suc k) \<Longrightarrow>
     \<exists>self'. retry_loop gmaps config location radius place_type retry_count delay (v, self) =
                Returned (all_results v) self'
       \<and> trace self' = trace self @
           concat (map (\<lambda>i. [Requested (build_kwargs location radius place_type (next_page_token v)),
                              Slept (delay * 2 ^ i)]) [0..<k])
           @ [Requested (build_kwargs location radius place_type (next_page_token v))]
       \<and> total_api_calls self' = total_api_calls self + int (Suc k)
       \<and> last (logged self') = Error_max_retries location place_type
       \<and> seen_place_ids self' = seen_place_ids self \<and> places self' = places self
       \<and> total_duplicates_skipped self' = total_duplicates_skipped self
       \<and> current_cell_index self' = current_cell_index self
       \<and> checkpoint_file self' = checkpoint_file self"
proof (induction k arbitrary: retry_count delay self)
  case 0
  let ?kw = "build_kwargs location radius place_type (next_page_token v)"
  obtain e where e: "gmaps (requests_issued self) ?kw = Raises e" "is_Exception e"
    using fails by blast
  have lt: "retry_count < MAX_RETRIES config" "retry_count + 1 \<ge> MAX_RETRIES config"
    using "0.prems" by simp_all
  show ?case
    using lt e by (simp add: retry_loop.simps [of _ _ _ _ _ retry_count] attempt_Raises logger_def)
next
  case (Suc k)
  let ?kw = "build_kwargs location radius place_type (next_page_token v)"
  obtain e where e: "gmaps (requests_issued self) ?kw = Raises e" "is_Exception e"
    using fails by blast
  have lt: "retry_count < MAX_RETRIES config" "\<not> retry_count + 1 \<ge> MAX_RETRIES config"
    using Suc.prems by simp_all
  let ?self2 = "self \<lparr> total_api_calls := total_api_calls self + 1,
      logged := logged self @ [Warning_api_error (retry_count + 1) (MAX_RETRIES config) e],
      trace := trace self @ [Requested ?kw, Slept delay] \<rparr>"
  have unfold: "retry_loop gmaps config location radius place_type retry_count delay (v, self) =
      retry_loop gmaps config location radius place_type (retry_count + 1) (delay * 2) (v, ?self2)"
    using lt e Suc.prems(1)
    by (simp add: retry_loop.simps [of _ _ _ _ _ retry_count] attempt_Raises logger_def sleep_def)
  have "0 \<le> delay * 2" "MAX_RETRIES config - (retry_count + 1) = int (Suc k)"
    using Suc.prems by simp_all
  from Suc.IH [OF this, of ?self2] obtain self' where
    res: "retry_loop gmaps config location radius place_type (retry_count + 1) (delay * 2) (v, ?self2)
       = Returned (all_results v) self'"
    and tr: "trace self' = trace ?self2 @
           concat (map (\<lambda>i. [Requested ?kw, Slept (delay * 2 * 2 ^ i)]) [0..<k]) @ [Requested ?kw]"
    and rest: "total_api_calls self' = total_api_calls ?self2 + int (Suc k)"
       "last (logged self') = Error_max_retries location place_type"
       "seen_place_ids self' = seen_place_ids ?self2" "places self' = places ?self2"
       "total_duplicates_skipped self' = total_duplicates_skipped ?self2"
       "current_cell_index self' = current_cell_index ?self2"
       "checkpoint_file self' = checkpoint_file ?self2"
    by blast
  have "trace self' = trace self @
           concat (map (\<lambda>i. [Requested ?kw, Slept (delay * 2 ^ i)]) [0..<Suc k]) @ [Requested ?kw]"
    unfolding tr upt_Suc_shift by (simp add: comp_def mult.assoc)
  then show ?case
    using res rest unfolding unfold by simp
qed

lemma sorted_doubling:
  "0 < (d::real) \<Longrightarrow> sorted_wrt (<) (map (\<lambda>i. d * 2 ^ i) [0..<n])"
  by (simp add: sorted_wrt_map sorted_wrt_iff_nth_less)

text \<open>
  C6. The API raises an \<^verbatim>\<open>Exception\<close> on every request, \<^verbatim>\<open>MAX_RETRIES\<close> is at least 1
  and the initial retry delay is positive. Then one search (given any fuel but none)
  returns the empty result list and raises nothing. Its trace is the same request
  issued \<^verbatim>\<open>MAX_RETRIES\<close> times with one backoff delay between each two consecutive
  attempts, the \<open>i\<close>-th being the initial delay times \<open>2 ^ i\<close>: each delay is the double
  of the one before, so they increase strictly. Nothing is slept after the last
  attempt; the exhaustion is logged as an error and the collector is untouched.
\<close>

theorem search_with_retry_always_failing:
  assumes "\<And>n r. \<exists>e. gmaps n r = Raises e \<and> is_Exception e"
    and "1 \<le> MAX_RETRIES config" and "0 < INITIAL_RETRY_DELAY_SECONDS config"
  shows "\<exists>self'. search_with_retry (Suc fuel) gmaps config self location radius place_type =
                Some (Inr [], self')
       \<and> trace self' = trace self @
           concat (map (\<lambda>i. [Requested (build_kwargs location radius place_type None),
                              Slept (INITIAL_RETRY_DELAY_SECONDS config * 2 ^ i)])
                     [0..<nat (MAX_RETRIES config - 1)])
           @ [Requested (build_kwargs location radius place_type None)]
       \<and> requests_issued self' = requests_issued self + nat (MAX_RETRIES config)
       \<and> sorted_wrt (<) (map (\<lambda>i. INITIAL_RETRY_DELAY_SECONDS config * 2 ^ i)
                            [0..<nat (MAX_RETRIES config - 1)])
       \<and> total_api_calls self' = total_api_calls self + MAX_RETRIES config
       \<and> last (logged self') = Error_max_retries location place_type
       \<and> seen_place_ids self' = seen_place_ids self \<and> places self' = places self
       \<and> total_duplicates_skipped self' = total_duplicates_skipped self"
proof -
  let ?v = "\<lparr> all_results = [], next_page_token = None, page_num = 0 \<rparr>"
  let ?k = "nat (MAX_RETRIES config - 1)"
  let ?kw = "build_kwargs location radius place_type None"
  have k: "MAX_RETRIES config - 0 = int (Suc ?k)" using assms(2) by simp
  have d: "0 \<le> INITIAL_RETRY_DELAY_SECONDS config" using assms(3) by simp
  from retry_loop_always_raises [of gmaps, OF assms(1) d k, of location radius place_type ?v self]
  obtain self' where
    res: "retry_loop gmaps config location radius place_type 0
            (INITIAL_RETRY_DELAY_SECONDS config) (?v, self) = Returned [] self'"
    and tr: "trace self' = trace self @
           concat (map (\<lambda>i. [Requested ?kw, Slept (INITIAL_RETRY_DELAY_SECONDS config * 2 ^ i)])
                     [0..<?k]) @ [Requested ?kw]"
    and rest: "total_api_calls self' = total_api_calls self + int (Suc ?k)"
       "last (logged self') = Error_max_retries location place_type"
       "seen_place_ids self' = seen_place_ids self" "places self' = places self"
       "total_duplicates_skipped self' = total_duplicates_skipped self"
    by auto
  have run: "search_with_retry (Suc fuel) gmaps config self location radius place_type =
      Some (Inr [], self')"
    by (simp add: search_with_retry_def res)
  have "filter is_Requested
          (concat (map (\<lambda>i. [Requested ?kw, Slept (INITIAL_RETRY_DELAY_SECONDS config * 2 ^ i)]) xs))
        = map (\<lambda>i. Requested ?kw) xs" for xs :: "nat list"
    by (induction xs) simp_all
  then have cnt: "requests_issued self' = requests_issued self + nat (MAX_RETRIES config)"
    using assms(2) by (simp add: requests_issued_def tr)
  have calls: "total_api_calls self' = total_api_calls self + MAX_RETRIES config"
    using rest(1) assms(2) by simp
  show ?thesis
    using run tr cnt calls rest(2-) sorted_doubling [OF assms(3)] by blast
qed

text \<open>With the defaults: five attempts, delays 1, 2, 4, 8 between them.\<close>

theorem search_with_retry_always_failing_witness:
  "\<exists>self'. search_with_retry 1 failing_api default_config world0 cell_location 1000 (Some ''cafe'') =
        Some (Inr [], self')
     \<and> trace self' =
         [Requested (build_kwargs cell_location 1000 (Some ''cafe'') None), Slept 1,
          Requested (build_kwargs cell_location 1000 (Some ''cafe'') None), Slept 2,
          Requested (build_kwargs cell_location 1000 (Some ''cafe'') None), Slept 4,
          Requested (build_kwargs cell_location 1000 (Some ''cafe'') None), Slept 8,
          Requested (build_kwargs cell_location 1000 (Some ''cafe'') None)]
     \<and> total_api_calls self' = 5"
proof -
  have fails: "\<And>n r. \<exists>e. failing_api n r = Raises e \<and> is_Exception e"
    by (simp add: failing_api_def is_Exception_def)
  have cfg: "1 \<le> MAX_RETRIES default_config" "0 < INITIAL_RETRY_DELAY_SECONDS default_config"
    by (simp_all add: default_config_def)
  have four: "[0..<nat (MAX_RETRIES default_config - 1)] = [0, 1, 2, 3]"
    by (simp add: default_config_def upt_rec)
  from search_with_retry_always_failing [of failing_api default_config 0 world0 cell_location 1000
      "Some ''cafe''", OF fails cfg]
  obtain self' where
    "search_with_retry 1 failing_api default_config world0 cell_location 1000 (Some ''cafe'') =
        Some (Inr [], self')"
    "trace self' = trace world0 @
           concat (map (\<lambda>i. [Requested (build_kwargs cell_location 1000 (Some ''cafe'') None),
                              Slept (INITIAL_RETRY_DELAY_SECONDS default_config * 2 ^ i)])
                     [0..<nat (MAX_RETRIES default_config - 1)])
           @ [Requested (build_kwargs cell_location 1000 (Some ''cafe'') None)]"
    "total_api_calls self' = total_api_calls world0 + MAX_RETRIES default_config"
    by auto
  then show ?thesis
    unfolding four by (auto simp add: default_config_def world0_def)
qed

text \<open>
  C7. The API answers the first request with a page and a cursor \<open>t1\<close>, the request
  carrying \<open>t1\<close> with a page and a cursor \<open>t2\<close>, and the request carrying \<open>t2\<close> with a
  page and no cursor (\<^verbatim>\<open>MAX_RETRIES\<close> at least 1, delays not negative). Then one search
  (given fuel for three pages) issues exactly these three requests and returns the
  three pages concatenated. The pagination delay is slept exactly twice, after page 1
  and after page 2, each time followed by the delay between requests; nothing is slept
  after the last page.
\<close>

theorem search_with_retry_three_pages:
  assumes "1 \<le> MAX_RETRIES config"
    and "0 \<le> PAGINATION_DELAY_SECONDS config" and "0 \<le> DELAY_BETWEEN_REQUESTS_SECONDS config"
    and "t1 \<noteq> []" and "t2 \<noteq> []"
    and "gmaps (requests_issued self) (build_kwargs location radius place_type None) =
           Returns \<lparr> status = Some ''OK'', results = Some page1, resp_next_page_token = Some t1 \<rparr>"
    and "gmaps (requests_issued self + 1) (build_kwargs location radius place_type (Some t1)) =
           Returns \<lparr> status = Some ''OK'', results = Some page2, resp_next_page_token = Some t2 \<rparr>"
    and "gmaps (requests_issued self + 2) (build_kwargs location radius place_type (Some t2)) =
           Returns \<lparr> status = Some ''OK'', results = Some page3, resp_next_page_token = None \<rparr>"
  shows "search_with_retry (Suc (Suc (Suc fuel))) gmaps config self location radius place_type =
     Some (Inr (page1 @ page2 @ page3),
           self \<lparr> total_api_calls := total_api_calls self + 3,
                  trace := trace self @
                    [Requested (build_kwargs location radius place_type None),
                     Slept (PAGINATION_DELAY_SECONDS config),
                     Slept (DELAY_BETWEEN_REQUESTS_SECONDS config),
                     Requested (build_kwargs location radius place_type (Some t1)),
                     Slept (PAGINATION_DELAY_SECONDS config),
                     Slept (DELAY_BETWEEN_REQUESTS_SECONDS config),
                     Requested (build_kwargs location radius place_type (Some t2))] \<rparr>)"
proof -
  let ?P = "PAGINATION_DELAY_SECONDS config" and ?D = "DELAY_BETWEEN_REQUESTS_SECONDS config"
  let ?k0 = "build_kwargs location radius place_type None"
  let ?k1 = "build_kwargs location radius place_type (Some t1)"
  let ?k2 = "build_kwargs location radius place_type (Some t2)"
  let ?v0 = "\<lparr> all_results = [], next_page_token = None, page_num = 0 \<rparr>"
  let ?v1 = "\<lparr> all_results = page1, next_page_token = Some t1, page_num = 1 \<rparr>"
  let ?v2 = "\<lparr> all_results = page1 @ page2, next_page_token = Some t2, page_num = 2 \<rparr>"
  let ?v3 = "\<lparr> all_results = page1 @ page2 @ page3, next_page_token = None, page_num = 3 \<rparr>"
  let ?s1 = "self \<lparr> total_api_calls := total_api_calls self + 1,
                    trace := trace self @ [Requested ?k0, Slept ?P, Slept ?D] \<rparr>"
  let ?s2 = "self \<lparr> total_api_calls := total_api_calls self + 2,
                    trace := trace self @ [Requested ?k0, Slept ?P, Slept ?D,
                                           Requested ?k1, Slept ?P, Slept ?D] \<rparr>"
  let ?s3 = "self \<lparr> total_api_calls := total_api_calls self + 3,
                    trace := trace self @ [Requested ?k0, Slept ?P, Slept ?D,
                                           Requested ?k1, Slept ?P, Slept ?D, Requested ?k2] \<rparr>"
  have lt: "0 < MAX_RETRIES config" using assms(1) by simp
  have a1: "attempt gmaps config location radius place_type (?v0, self) = (None, ?v1, ?s1)"
    using assms(2,3,4,6) by (simp add: attempt_def Let_def sleep_def get_or_def)
  have n1: "requests_issued ?s1 = requests_issued self + 1"
    by (simp add: requests_issued_def)
  have a2: "attempt gmaps config location radius place_type (?v1, ?s1) = (None, ?v2, ?s2)"
    using assms(2,3,5,7) by (simp add: attempt_def Let_def sleep_def get_or_def n1)
  have n2: "requests_issued ?s2 = requests_issued self + 2"
    by (simp add: requests_issued_def)
  have a3: "attempt gmaps config location radius place_type (?v2, ?s2) = (None, ?v3, ?s3)"
    using assms(8) by (simp add: attempt_def Let_def get_or_def n2)
  note r1 = retry_loop_success [OF lt a1, of "INITIAL_RETRY_DELAY_SECONDS config"]
  note r2 = retry_loop_success [OF lt a2, of "INITIAL_RETRY_DELAY_SECONDS config"]
  note r3 = retry_loop_success [OF lt a3, of "INITIAL_RETRY_DELAY_SECONDS config"]
  show ?thesis
    using assms(4,5) by (simp add: search_with_retry_def r1 r2 r3)
qed

theorem search_with_retry_three_pages_witness:
  "search_with_retry 3 three_page_api default_config world0 cell_location 1000 None =
     Some (Inr [kiosk, kiosk_renamed, nameless_result],
           world0 \<lparr> total_api_calls := 3,
                    trace :=
                      [Requested (build_kwargs cell_location 1000 None None),
                       Slept 2.5, Slept 0.5,
                       Requested (build_kwargs cell_location 1000 None (Some ''t1'')),
                       Slept 2.5, Slept 0.5,
                       Requested (build_kwargs cell_location 1000 None (Some ''t2''))] \<rparr>)"
  using search_with_retry_three_pages [of default_config "''t1''" "''t2''" three_page_api world0
      cell_location 1000 None "[kiosk]" "[kiosk_renamed]" "[nameless_result]" 0]
  by (simp add: three_page_api_def default_config_def world0_def requests_issued_def
        numeral_3_eq_3)

text \<open>
  What the client makes of the service's answers: a failed answer is raised as an
  \<^verbatim>\<open>Exception\<close>, and a body is returned only with a success status (so the warning of
  the status check is never logged behind this client).
\<close>

lemma places_nearby_failed:
  "failed (service n r) \<Longrightarrow> \<exists>e. places_nearby service n r = Raises e \<and> is_Exception e"
  by (cases "service n r")
     (auto simp: places_nearby_def is_Exception_def split: option.splits)

lemma places_nearby_Returns:
  "places_nearby service n r = Returns body \<Longrightarrow>
   service n r = Body body \<and> (status body = Some ''OK'' \<or> status body = Some ''ZERO_RESULTS'')"
  by (cases "service n r")
     (auto simp: places_nearby_def split: option.splits if_splits)

lemma retry_loop_raises_again:
  assumes "\<forall>i<k. \<exists>e. gmaps (requests_issued self + i)
              (build_kwargs location radius place_type (next_page_token v)) = Raises e \<and> is_Exception e"
    and "0 \<le> delay" and "retry_count + int k < MAX_RETRIES config"
  shows "\<exists>self'. retry_loop gmaps config location radius place_type retry_count delay (v, self) =
                retry_loop gmaps config location radius place_type (retry_count + int k)
                  (delay * 2 ^ k) (v, self')
       \<and> trace self' = trace self @
           concat (map (\<lambda>i. [Requested (build_kwargs location radius place_type (next_page_token v)),
                              Slept (delay * 2 ^ i)]) [0..<k])
       \<and> requests_issued self' = requests_issued self + k
       \<and> total_api_calls self' = total_api_calls self + int k
       \<and> seen_place_ids self' = seen_place_ids self \<and> places self' = places self
       \<and> total_duplicates_skipped self' = total_duplicates_skipped self"
  using assms
proof (induction k arbitrary: retry_count delay self)
  case 0
  show ?case by (intro exI [of _ self]) simp
next
  case (Suc k)
  let ?kw = "build_kwargs location radius place_type (next_page_token v)"
  from Suc.prems(1) obtain e where e: "gmaps (requests_issued self) ?kw = Raises e" "is_Exception e"
    by force
  have lt: "retry_count < MAX_RETRIES config" "\<not> retry_count + 1 \<ge> MAX_RETRIES config"
    using Suc.prems(3) by simp_all
  let ?self2 = "self \<lparr> total_api_calls := total_api_calls self + 1,
      logged := logged self @ [Warning_api_error (retry_count + 1) (MAX_RETRIES config) e],
      trace := trace self @ [Requested ?kw, Slept delay] \<rparr>"
  have unfold: "retry_loop gmaps config location radius place_type retry_count delay (v, self) =
      retry_loop gmaps config location radius place_type (retry_count + 1) (delay * 2) (v, ?self2)"
    using lt e Suc.prems(2)
    by (simp add: retry_loop.simps [of _ _ _ _ _ retry_count] attempt_Raises logger_def sleep_def)
  have n2: "requests_issued ?self2 = Suc (requests_issued self)"
    by (simp add: requests_issued_def)
  have later: "\<forall>i<k. \<exists>e. gmaps (requests_issued ?self2 + i) ?kw = Raises e \<and> is_Exception e"
  proof (intro allI impI)
    fix i assume "i < k"
    then have "Suc i < Suc k" by simp
    with Suc.prems(1) have "\<exists>e. gmaps (requests_issued self + Suc i) ?kw = Raises e \<and> is_Exception e"
      by blast
    then show "\<exists>e. gmaps (requests_issued ?self2 + i) ?kw = Raises e \<and> is_Exception e"
      by (simp add: n2)
  qed
  have d: "0 \<le> delay * 2" using Suc.prems(2) by simp
  have r: "retry_count + 1 + int k < MAX_RETRIES config" using Suc.prems(3) by simp
  from Suc.IH [OF later d r] obtain self' where
    res: "retry_loop gmaps config location radius place_type (retry_count + 1) (delay * 2) (v, ?self2)
       = retry_loop gmaps config location radius place_type (retry_count + 1 + int k)
           (delay * 2 * 2 ^ k) (v, self')"
    and tr: "trace self' = trace ?self2 @
           concat (map (\<lambda>i. [Requested ?kw, Slept (delay * 2 * 2 ^ i)]) [0..<k])"
    and rest: "requests_issued self' = requests_issued ?self2 + k"
       "total_api_calls self' = total_api_calls ?self2 + int k"
       "seen_place_ids self' = seen_place_ids ?self2" "places self' = places ?self2"
       "total_duplicates_skipped self' = total_duplicates_skipped ?self2"
    by blast
  have tr': "trace self' = trace self @
           concat (map (\<lambda>i. [Requested ?kw, Slept (delay * 2 ^ i)]) [0..<Suc k])"
    unfolding tr upt_Suc_shift by (simp add: comp_def mult.assoc)
  have res': "retry_loop gmaps config location radius place_type retry_count delay (v, self)
       = retry_loop gmaps config location radius place_type (retry_count + int (Suc k))
           (delay * 2 ^ Suc k) (v, self')"
    unfolding unfold res by (simp add: add.assoc mult.assoc)
  show ?case
    using res' tr' rest n2 by (intro exI [of _ self']) simp
qed

lemma retry_loop_last_attempt:
  assumes "gmaps (requests_issued self)
              (build_kwargs location radius place_type (next_page_token v)) = Raises e"
    and "is_Exception e" and "retry_count < MAX_RETRIES config"
    and "MAX_RETRIES config \<le> retry_count + 1"
  shows "retry_loop gmaps config location radius place_type retry_count delay (v, self) =
     Returned (all_results v)
       (self \<lparr> total_api_calls := total_api_calls self + 1,
               logged := logged self @
                  [Warning_api_error (retry_count + 1) (MAX_RETRIES config) e,
                   Error_max_retries location place_type],
               trace := trace self @
                  [Requested (build_kwargs location radius place_type (next_page_token v))] \<rparr>)"
  using assms
  by (simp add: retry_loop.simps [of _ _ _ _ _ retry_count] attempt_Raises logger_def)

text \<open>
  C8. At any point of the retry loop (any retry count, any delay, any results
  accumulated), let the service fail the next \<open>k + 1\<close> calls for the current request,
  each by a status that is neither \<^verbatim>\<open>OK\<close> nor \<^verbatim>\<open>ZERO_RESULTS\<close> or by a transport
  failure, while attempts remain for them. Then each failed call is followed by a
  backoff delay, doubled from one to the next, and by another attempt of the same
  request: after the \<open>k + 1\<close> calls the loop goes on at retry count plus \<open>k + 1\<close> with
  the delay doubled \<open>k + 1\<close> times and the locals unchanged. When the last of these
  calls was the attempt number \<^verbatim>\<open>MAX_RETRIES\<close>, nothing more is slept and the results
  accumulated so far are returned. A failed status and a transport failure are treated
  alike, and the collector is untouched.
\<close>

theorem non_success_status_retried:
  assumes "\<forall>i\<le>k. failed (service (requests_issued self + i)
              (build_kwargs location radius place_type (next_page_token v)))"
    and "0 \<le> delay" and "retry_count + int k < MAX_RETRIES config"
  shows "\<exists>self'.
       retry_loop (places_nearby service) config location radius place_type retry_count delay (v, self) =
         (if retry_count + int k + 1 < MAX_RETRIES config
          then retry_loop (places_nearby service) config location radius place_type
                 (retry_count + int k + 1) (delay * 2 ^ (k + 1)) (v, self')
          else Returned (all_results v) self')
       \<and> trace self' = trace self @
           concat (map (\<lambda>i. [Requested (build_kwargs location radius place_type (next_page_token v)),
                              Slept (delay * 2 ^ i)]) [0..<k])
           @ (if retry_count + int k + 1 < MAX_RETRIES config
              then [Requested (build_kwargs location radius place_type (next_page_token v)),
                    Slept (delay * 2 ^ k)]
              else [Requested (build_kwargs location radius place_type (next_page_token v))])
       \<and> requests_issued self' = requests_issued self + k + 1
       \<and> total_api_calls self' = total_api_calls self + int k + 1
       \<and> seen_place_ids self' = seen_place_ids self \<and> places self' = places self
       \<and> total_duplicates_skipped self' = total_duplicates_skipped self"
proof -
  let ?kw = "build_kwargs location radius place_type (next_page_token v)"
  let ?gm = "places_nearby service"
  have raises: "\<exists>e. ?gm (requests_issued self + i) ?kw = Raises e \<and> is_Exception e" if "i \<le> k" for i
    using assms(1) that by (intro places_nearby_failed) blast
  show ?thesis
  proof (cases "retry_count + int k + 1 < MAX_RETRIES config")
    case True
    have all: "\<forall>i<Suc k. \<exists>e. ?gm (requests_issued self + i) ?kw = Raises e \<and> is_Exception e"
      using raises by simp
    have r: "retry_count + int (Suc k) < MAX_RETRIES config" using True by simp
    from retry_loop_raises_again [of "Suc k" ?gm, OF all assms(2) r] obtain self' where
      "retry_loop ?gm config location radius place_type retry_count delay (v, self) =
         retry_loop ?gm config location radius place_type (retry_count + int (Suc k))
           (delay * 2 ^ Suc k) (v, self')"
      "trace self' = trace self @ concat (map (\<lambda>i. [Requested ?kw, Slept (delay * 2 ^ i)]) [0..<Suc k])"
      "requests_issued self' = requests_issued self + Suc k"
      "total_api_calls self' = total_api_calls self + int (Suc k)"
      "seen_place_ids self' = seen_place_ids self" "places self' = places self"
      "total_duplicates_skipped self' = total_duplicates_skipped self"
      by blast
    then show ?thesis
      using True by (intro exI [of _ self']) (simp add: ac_simps)
  next
    case False
    have first: "\<forall>i<k. \<exists>e. ?gm (requests_issued self + i) ?kw = Raises e \<and> is_Exception e"
      using raises by simp
    from retry_loop_raises_again [of k ?gm, OF first assms(2) assms(3)] obtain mid where
      go: "retry_loop ?gm config location radius place_type retry_count delay (v, self) =
         retry_loop ?gm config location radius place_type (retry_count + int k)
           (delay * 2 ^ k) (v, mid)"
      and mid: "trace mid = trace self @ concat (map (\<lambda>i. [Requested ?kw, Slept (delay * 2 ^ i)]) [0..<k])"
      "requests_issued mid = requests_issued self + k"
      "total_api_calls mid = total_api_calls self + int k"
      "seen_place_ids mid = seen_place_ids self" "places mid = places self"
      "total_duplicates_skipped mid = total_duplicates_skipped self"
      by blast
    from raises [of k] mid(2) obtain e where
      e: "?gm (requests_issued mid) ?kw = Raises e" "is_Exception e"
      by auto
    have le: "MAX_RETRIES config \<le> retry_count + int k + 1" using False by simp
    note fin = retry_loop_last_attempt [of ?gm, OF e assms(3) le, of "delay * 2 ^ k"]
    let ?self' = "mid \<lparr> total_api_calls := total_api_calls mid + 1,
               logged := logged mid @
                  [Warning_api_error (retry_count + int k + 1) (MAX_RETRIES config) e,
                   Error_max_retries location place_type],
               trace := trace mid @ [Requested ?kw] \<rparr>"
    have n: "requests_issued ?self' = requests_issued mid + 1"
      by (simp add: requests_issued_def)
    show ?thesis
      using False go fin mid n
      by (intro exI [of _ ?self']) simp
  qed
qed

text \<open>A service that denies every request, with the defaults: five attempts, delays 1, 2, 4, 8.\<close>

theorem non_success_status_retried_witness:
  "\<exists>self'. search_with_retry 1 (places_nearby denying_service) default_config world0
        cell_location 1000 (Some ''bank'') = Some (Inr [], self')
     \<and> trace self' =
         [Requested (build_kwargs cell_location 1000 (Some ''bank'') None), Slept 1,
          Requested (build_kwargs cell_location 1000 (Some ''bank'') None), Slept 2,
          Requested (build_kwargs cell_location 1000 (Some ''bank'') None), Slept 4,
          Requested (build_kwargs cell_location 1000 (Some ''bank'') None), Slept 8,
          Requested (build_kwargs cell_location 1000 (Some ''bank'') None)]
     \<and> total_api_calls self' = 5"
proof -
  let ?v = "\<lparr> all_results = [], next_page_token = None, page_num = 0 \<rparr>"
  have denied: "\<forall>i\<le>4. failed (denying_service (requests_issued world0 + i)
      (build_kwargs cell_location 1000 (Some ''bank'') (next_page_token ?v)))"
    by (simp add: denying_service_def)
  have cfg: "(0::real) \<le> 1" "0 + int 4 < MAX_RETRIES default_config"
    by (simp_all add: default_config_def)
  have four: "[0..<4] = [0, 1, 2, 3]" by (simp add: upt_rec)
  from non_success_status_retried [of 4 denying_service world0 cell_location 1000 "Some ''bank''" ?v
      1 0 default_config, OF denied cfg]
  obtain self' where
    "retry_loop (places_nearby denying_service) default_config cell_location 1000 (Some ''bank'')
        0 1 (?v, world0) = Returned [] self'"
    "trace self' = trace world0 @
       concat (map (\<lambda>i. [Requested (build_kwargs cell_location 1000 (Some ''bank'') None),
                          Slept (1 * 2 ^ i)]) [0..<4])
       @ [Requested (build_kwargs cell_location 1000 (Some ''bank'') None)]"
    "total_api_calls self' = total_api_calls world0 + int 4 + 1"
    by (auto simp add: default_config_def)
  then show ?thesis
    unfolding four
    by (intro exI [of _ self'])
       (simp add: search_with_retry_def default_config_def world0_def)
qed

section \<open>Extraction orchestrator: an interrupted run\<close>

lemmas run_simps = main_def generate_grid_def py_truediv_def py_range_def grid_cell_def init_def
  load_checkpoint_def load_checkpoint_try_def extract_all_places_def py_index_def
  search_grid_cell_def search_with_retry_def retry_loop.simps attempt_def build_kwargs_def
  requests_issued_def sleep_def logger_def process_result_def get_or_def py_mod_def
  save_checkpoint_def to_dict_def Place_of_dict_def is_Exception_def Let_def upt_rec
  two_cell_config_def default_config_def world0_def steady_api_def interrupting_api_def
  place_for_def

lemma sorted_list_of_fset_single [simp]: "sorted_list_of_fset {|x|} = [x]"
  by (simp add: sorted_list_of_fset.rep_eq)

text \<open>
  C1 fails on the code. \<^verbatim>\<open>extract_all_places\<close> sets \<^verbatim>\<open>current_cell_index\<close> before it
  searches the cell, and \<^verbatim>\<open>save_checkpoint\<close> writes that index as
  \<^verbatim>\<open>last_completed_cell_index\<close>. In the run below the interrupt arrives during the
  second search of cell 0: the process exits with status 1 and leaves a checkpoint
  that names cell 0 as completed. The next run resumes at cell 1 and ends with three
  places; the generic search of cell 0 is never repeated and its place \<^verbatim>\<open>any-west\<close> is
  missing. The run that is never interrupted collects four.
\<close>

theorem interrupted_run_skips_search:
  "main 1 interrupting_api two_cell_config world0 = Some (1, interrupted)
   \<and> map_option (\<lambda>(exit_status, self). (exit_status, map fst (places self)))
        (main 1 interrupting_api two_cell_config interrupted) =
       Some (0, [''cafe-west'', ''cafe-east'', ''any-east''])
   \<and> map_option (\<lambda>(exit_status, self). (exit_status, map fst (places self)))
        (main 1 steady_api two_cell_config world0) =
       Some (0, [''cafe-west'', ''any-west'', ''cafe-east'', ''any-east''])"
proof -
  have first: "main 1 interrupting_api two_cell_config world0 = Some (1, interrupted)"
    by (simp add: run_simps interrupted_def west_cafe_def)
  have second: "map_option (\<lambda>(exit_status, self). (exit_status, map fst (places self)))
        (main 1 interrupting_api two_cell_config interrupted) =
       Some (0, [''cafe-west'', ''cafe-east'', ''any-east''])"
    by (simp add: run_simps interrupted_def west_cafe_def)
  have whole: "map_option (\<lambda>(exit_status, self). (exit_status, map fst (places self)))
        (main 1 steady_api two_cell_config world0) =
       Some (0, [''cafe-west'', ''any-west'', ''cafe-east'', ''any-east''])"
    by (simp add: run_simps)
  show ?thesis using first second whole by simp
qed

end
